theory Spec2Isabelle
  imports Complex_Main
begin

section \<open>Strings and the string operations of the host language\<close>

text \<open>
  A string of the extension is modelled as a \<^typ>\<open>string\<close>. Each character stands for one
  code unit of the source string; the model covers the code units U+0000 to U+00FF.
\<close>

definition LF :: char where
  "LF = CHR 0x0A"

definition CR :: char where
  "CR = CHR 0x0D"

text \<open>The class \<^verbatim>\<open>\s\<close> of a regular expression, on the code units of the model.\<close>

definition isSpace :: "char \<Rightarrow> bool" where
  "isSpace c = (c \<in> set [CHR 0x09, CHR 0x0A, CHR 0x0B, CHR 0x0C, CHR 0x0D, CHR 0x20, CHR 0xA0])"

definition isDigit :: "char \<Rightarrow> bool" where
  "isDigit c = (c \<in> set ''0123456789'')"

definition digitVal :: "char \<Rightarrow> nat" where
  "digitVal c = of_char c - 48"

text \<open>\<^verbatim>\<open>s.startsWith(p)\<close> and \<^verbatim>\<open>s.endsWith(p)\<close>.\<close>

definition startsWith :: "string \<Rightarrow> string \<Rightarrow> bool" where
  "startsWith s p = (take (length p) s = p)"

definition endsWith :: "string \<Rightarrow> string \<Rightarrow> bool" where
  "endsWith s p = (length p \<le> length s \<and> drop (length s - length p) s = p)"

text \<open>
  \<^verbatim>\<open>s.split(c)\<close> for a separator of one character: the pieces between the separators,
  empty pieces included; the empty string gives one empty piece.
\<close>

fun split_on :: "char \<Rightarrow> string \<Rightarrow> string list" where
  "split_on c [] = [[]]"
| "split_on c (x # xs) =
     (if x = c then [] # split_on c xs
      else (case split_on c xs of
              [] \<Rightarrow> [[x]]
            | w # ws \<Rightarrow> (x # w) # ws))"

text \<open>
  The replacement text of \<^verbatim>\<open>String.prototype.replace\<close> is a template: \<^verbatim>\<open>$$\<close> is a
  dollar sign, \<^verbatim>\<open>$&\<close> the matched text, \<^verbatim>\<open>$`\<close> and \<^verbatim>\<open>$'\<close> the text before and after
  the match, \<^verbatim>\<open>$n\<close> and \<^verbatim>\<open>$nn\<close> the capture groups. The arguments are the matched
  text, the text before it, the text after it, the captures and the template.
\<close>

fun getSubstitution :: "string \<Rightarrow> string \<Rightarrow> string \<Rightarrow> string list \<Rightarrow> string \<Rightarrow> string" where
  "getSubstitution m b a caps [] = []"
| "getSubstitution m b a caps [c] = [c]"
| "getSubstitution m b a caps (c # d # r) =
     (if c \<noteq> CHR ''$'' then c # getSubstitution m b a caps (d # r)
      else if d = CHR ''$'' then CHR ''$'' # getSubstitution m b a caps r
      else if d = CHR ''&'' then m @ getSubstitution m b a caps r
      else if d = CHR 0x60 then b @ getSubstitution m b a caps r
      else if d = CHR 0x27 then a @ getSubstitution m b a caps r
      else if isDigit d then
        (case r of
           [] \<Rightarrow>
             (if 1 \<le> digitVal d \<and> digitVal d \<le> length caps
              then caps ! (digitVal d - 1)
              else [c, d])
         | e # r' \<Rightarrow>
             (if isDigit e \<and> 10 * digitVal d + digitVal e \<le> length caps
              then (if 1 \<le> 10 * digitVal d + digitVal e
                    then caps ! (10 * digitVal d + digitVal e - 1) @ getSubstitution m b a caps r'
                    else c # d # e # getSubstitution m b a caps r')
              else if 1 \<le> digitVal d \<and> digitVal d \<le> length caps
              then caps ! (digitVal d - 1) @ getSubstitution m b a caps (e # r')
              else c # d # getSubstitution m b a caps (e # r')))
      else c # getSubstitution m b a caps (d # r))"

text \<open>\<^verbatim>\<open>s.replace(/^~\//, home + '/')\<close>: a leading \<^verbatim>\<open>~/\<close> becomes the home directory.\<close>

definition replaceHome :: "string \<Rightarrow> string \<Rightarrow> string" where
  "replaceHome home s =
     (if startsWith s ''~/''
      then getSubstitution ''~/'' [] (drop 2 s) [] (home @ ''/'') @ drop 2 s
      else s)"

section \<open>Configuration snapshot, URIs and the host\<close>

text \<open>The class \<^verbatim>\<open>PHPCSFixerConfig\<close> of \<^verbatim>\<open>index.d.ts\<close>; \<^verbatim>\<open>pharPath\<close> is \<^verbatim>\<open>null\<close> or a string.\<close>

record PHPCSFixerConfig =
  onsave :: bool
  autoFixByBracket :: bool
  autoFixBySemicolon :: bool
  executablePath :: string
  rules :: string
  config :: string
  formatHtml :: bool
  documentFormattingProvider :: bool
  allowRisky :: bool
  pathMode :: string
  exclude :: "string list"
  pharPath :: "string option"
  editorFormatOnSave :: "bool option"
  fileAutoSave :: "string option"
  fileAutoSaveDelay :: int

text \<open>The parts of a \<^verbatim>\<open>vscode.Uri\<close> the extension reads.\<close>

record Uri =
  scheme :: string
  fsPath :: string
  path :: string

section \<open>Errors, the external process and the runtime\<close>

text \<open>
  The error object of a failed process, with the four properties \<^verbatim>\<open>format\<close> reads
  (\<^verbatim>\<open>None\<close> is \<^verbatim>\<open>undefined\<close>).
\<close>

record execError =
  code :: "string option"
  exitCode :: "int option"
  stdout :: "string option"
  stderr :: "string option"

text \<open>
  Modelled from the spec: \<^verbatim>\<open>runAsync\<close> (module \<^verbatim>\<open>./runAsync\<close>) runs the external binary
  and gives a promise of \<^verbatim>\<open>{stdout, stderr}\<close>; a failure is a rejection that carries the
  exit code and the captured output.
\<close>

datatype runResult = Fulfilled string string | Failed execError

text \<open>
  What a promise is rejected with, or what a call throws: the error of the process,
  \<^verbatim>\<open>new Error(message)\<close>, the \<^verbatim>\<open>SyntaxError\<close> of \<^verbatim>\<open>JSON.parse\<close>, a \<^verbatim>\<open>TypeError\<close>
  (a property of \<^verbatim>\<open>undefined\<close> or \<^verbatim>\<open>null\<close> is read), an error of \<^verbatim>\<open>fs\<close> with its code,
  an illegal argument of the editor API, and \<^verbatim>\<open>reject()\<close> without a value.
\<close>

datatype reason =
    ProcessError execError
  | Error string
  | SyntaxError
  | TypeError
  | FsError string
  | IllegalArgument
  | NoReason

text \<open>The settled or thrown result of a call that returns a promise.\<close>

datatype 'a completion = Throws reason | Resolves 'a | Rejects reason

text \<open>The values \<^verbatim>\<open>JSON.parse\<close> returns.\<close>

datatype jsvalue =
    JNull
  | JBool bool
  | JNumber real
  | JString string
  | JArray "jsvalue list"
  | JObject "(string \<times> jsvalue) list"

text \<open>
  What the extension reads from the platform, the runtime and the editor:
  \<^verbatim>\<open>os.tmpdir()\<close>, \<^verbatim>\<open>os.homedir()\<close>, \<^verbatim>\<open>path.isAbsolute\<close>, \<^verbatim>\<open>path.dirname\<close>,
  \<^verbatim>\<open>workspace.getWorkspaceFolder(uri)\<close> (the folder's \<^verbatim>\<open>uri.fsPath\<close>, or undefined),
  \<^verbatim>\<open>workspace.workspaceFolders\<close> (the folders' paths, or undefined),
  \<^verbatim>\<open>JSON.parse\<close> (\<^verbatim>\<open>None\<close> when it throws), the conversion of a value that is not a number
  to a number (\<^verbatim>\<open>None\<close> for \<^verbatim>\<open>NaN\<close>), \<^verbatim>\<open>runAsync\<close> with the disk it finds and the disk it
  leaves, the code of the error \<^verbatim>\<open>fs.writeFileSync\<close> throws for a path (\<^verbatim>\<open>None\<close> when it
  writes), whether \<^verbatim>\<open>fs.unlink\<close> fails for a path, \<^verbatim>\<open>anymatch\<close>, and where the
  command \<^verbatim>\<open>editor.action.jumpToBracket\<close> puts the cursor for a document and a cursor.
\<close>

record host =
  TmpDir :: string
  homedir :: string
  isAbsolute :: "string \<Rightarrow> bool"
  dirname :: "string \<Rightarrow> string"
  getWorkspaceFolder :: "Uri \<Rightarrow> string option"
  workspaceFolders :: "string list option"
  JSON_parse :: "string \<Rightarrow> jsvalue option"
  toNumber :: "jsvalue \<Rightarrow> real option"
  runAsync :: "string \<Rightarrow> string list \<Rightarrow> string option \<Rightarrow> (string \<rightharpoonup> string)
                 \<Rightarrow> runResult \<times> (string \<rightharpoonup> string)"
  writeFileError :: "string \<Rightarrow> string option"
  unlinkFails :: "string \<Rightarrow> bool"
  anymatch :: "string list \<Rightarrow> string \<Rightarrow> bool"
  jumpToBracket :: "string list \<Rightarrow> nat \<times> nat \<Rightarrow> nat \<times> nat"

definition getActiveWorkspacePath :: "host \<Rightarrow> Uri \<Rightarrow> string option" where
  "getActiveWorkspacePath h uri =
     (if scheme uri = ''file'' then getWorkspaceFolder h uri else None)"

section \<open>The invocation builder: \<^verbatim>\<open>getArgs\<close>\<close>

text \<open>Lines 90 to 93: the candidate names, split on \<^verbatim>\<open>;\<close>, empty ones dropped, \<^verbatim>\<open>~/\<close> expanded.\<close>

definition configFiles :: "host \<Rightarrow> string \<Rightarrow> string list" where
  "configFiles h cs =
     map (replaceHome (homedir h)) (filter (\<lambda>file. file \<noteq> []) (split_on (CHR '';'') cs))"

text \<open>Lines 96 to 99: the search roots, none without a workspace folder.\<close>

definition searchPaths :: "string option \<Rightarrow> string list" where
  "searchPaths rootPath =
     (case rootPath of
        None \<Rightarrow> []
      | Some r \<Rightarrow> [r @ ''/.vscode/'', r @ ''/''])"

text \<open>Lines 101 to 110: the array \<^verbatim>\<open>files\<close>.\<close>

definition candidateFiles :: "host \<Rightarrow> string option \<Rightarrow> string list \<Rightarrow> string list" where
  "candidateFiles h rootPath cfs =
     concat (map (\<lambda>file. if isAbsolute h file then [file]
                          else map (\<lambda>searchPath. searchPath @ file) (searchPaths rootPath)) cfs)"

text \<open>
  Lines 112 to 119: the scan. The first component lists the paths given to
  \<^verbatim>\<open>fs.existsSync\<close>, in the order of the calls; the second is the file the loop broke at.
\<close>

fun scanConfig :: "(string \<Rightarrow> bool) \<Rightarrow> string list \<Rightarrow> string list \<times> string option" where
  "scanConfig ex [] = ([], None)"
| "scanConfig ex (c # cs) =
     (if ex c then ([c], Some c)
      else (case scanConfig ex cs of (probed, found) \<Rightarrow> (c # probed, found)))"

text \<open>
  Line 81, \<^verbatim>\<open>filePath || uri.fsPath\<close>: \<^verbatim>\<open>None\<close> is the default \<^verbatim>\<open>null\<close> of the parameter.

  \<^verbatim>\<open>getArgs(uri, filePath)\<close>. The argument \<open>ex\<close> is \<^verbatim>\<open>fs.existsSync\<close> on the disk of the
  moment. The result is the argument list and the paths probed with \<^verbatim>\<open>fs.existsSync\<close>.
\<close>

definition targetPath :: "Uri \<Rightarrow> string option \<Rightarrow> string" where
  "targetPath uri filePath0 =
     (case filePath0 of
        None \<Rightarrow> fsPath uri
      | Some p \<Rightarrow> if p = [] then fsPath uri else p)"

definition getArgs ::
  "host \<Rightarrow> (string \<Rightarrow> bool) \<Rightarrow> PHPCSFixerConfig \<Rightarrow> Uri \<Rightarrow> string option \<Rightarrow> string list \<times> string list" where
  "getArgs h ex cfg uri filePath0 =
     (let filePath = targetPath uri filePath0;
          args0 = (case pharPath cfg of None \<Rightarrow> [] | Some p \<Rightarrow> [p])
                    @ [''fix'', ''--using-cache=no'', ''--format=json''];
          scan = (if length (config cfg) > 0
                  then scanConfig ex
                         (candidateFiles h (getActiveWorkspacePath h uri) (configFiles h (config cfg)))
                  else ([], None));
          args1 = (case snd scan of
                     Some c \<Rightarrow> args0 @ [''--config='' @ c]
                   | None \<Rightarrow> if rules cfg \<noteq> [] then args0 @ [''--rules='' @ rules cfg] else args0);
          args2 = (if allowRisky cfg then args1 @ [''--allow-risky=yes''] else args1);
          args3 = (if startsWith filePath (TmpDir h)
                   then args2 @ [''--path-mode=override'']
                   else args2 @ [''--path-mode='' @ pathMode cfg])
      in (args3 @ [filePath], fst scan))"

section \<open>The state: running flag, disk, helper calls, editor\<close>

text \<open>
  The calls to the helpers of \<^verbatim>\<open>./output\<close> (\<^verbatim>\<open>clearOutput\<close>, \<^verbatim>\<open>output\<close>, \<^verbatim>\<open>statusInfo\<close>,
  \<^verbatim>\<open>hideStatusBar\<close>), to \<^verbatim>\<open>fs.writeFileSync\<close>, \<^verbatim>\<open>fs.unlink\<close> and \<^verbatim>\<open>runAsync\<close>, to
  \<^verbatim>\<open>errorTip\<close>, to \<^verbatim>\<open>commands.executeCommand\<close> and to \<^verbatim>\<open>editor.edit\<close>, in the order they are
  made. \<^verbatim>\<open>OutputArgs\<close> is \<^verbatim>\<open>output(JSON.stringify(args, null, 2))\<close>, \<^verbatim>\<open>OutputError\<close> is
  \<^verbatim>\<open>output(JSON.stringify(err, null, 2))\<close>; the argument of \<^verbatim>\<open>StatusInfo\<close> is \<^verbatim>\<open>None\<close> for
  \<^verbatim>\<open>undefined\<close>. \<^verbatim>\<open>console.log\<close> is left out.
\<close>

datatype event =
    ClearOutput
  | Output string
  | OutputArgs "string list"
  | OutputError reason
  | StatusInfo "string option"
  | HideStatusBar
  | WriteFile string string
  | Unlink string
  | RunAsync string "string list" "string option"
  | ErrorTip
  | ExecuteCommand string
  | Replace "(nat \<times> nat) \<times> (nat \<times> nat)" string

text \<open>
  The module variable \<^verbatim>\<open>isRunning\<close>, the files on disk with their content, the calls made
  so far, and the active editor: the lines of its document, the line break of the
  document, the document's URI and \<^verbatim>\<open>isUntitled\<close>, \<^verbatim>\<open>editor.selection.start\<close> as line and
  character, and the cursor positions \<^verbatim>\<open>cursorUndo\<close> goes back to.
\<close>

record world =
  isRunning :: bool
  disk :: "string \<rightharpoonup> string"
  trace :: "event list"
  docLines :: "string list"
  docEol :: string
  docUri :: Uri
  docIsUntitled :: bool
  selectionStart :: "nat \<times> nat"
  cursorStack :: "(nat \<times> nat) list"

definition logEv :: "event list \<Rightarrow> world \<Rightarrow> world" where
  "logEv es w = w\<lparr>trace := trace w @ es\<rparr>"

section \<open>The executable of an invocation\<close>

text \<open>
  \<^verbatim>\<open>s.replace(/^\$\{workspace(Root|Folder)\}/, folder)\<close>; the capture group is \<^verbatim>\<open>Root\<close> or
  \<^verbatim>\<open>Folder\<close>.
\<close>

definition replaceWorkspace :: "string \<Rightarrow> string \<Rightarrow> string" where
  "replaceWorkspace folder s =
     (if startsWith s ''${workspaceRoot}''
      then getSubstitution ''${workspaceRoot}'' [] (drop 16 s) [''Root''] folder @ drop 16 s
      else if startsWith s ''${workspaceFolder}''
      then getSubstitution ''${workspaceFolder}'' [] (drop 18 s) [''Folder''] folder @ drop 18 s
      else s)"

text \<open>
  \<^verbatim>\<open>getRealExecutablePath(uri)\<close>. The second argument of \<^verbatim>\<open>replace\<close> is evaluated before the
  call: with no active workspace path it reads \<^verbatim>\<open>workspace.workspaceFolders[0].uri\<close>, a
  \<^verbatim>\<open>TypeError\<close> when the list of folders is empty.
\<close>

definition getRealExecutablePath :: "host \<Rightarrow> PHPCSFixerConfig \<Rightarrow> Uri \<Rightarrow> reason + string option" where
  "getRealExecutablePath h cfg uri =
     (case workspaceFolders h of
        None \<Rightarrow> Inr None
      | Some folders \<Rightarrow>
          (case getActiveWorkspacePath h uri of
             None \<Rightarrow>
               (case folders of
                  [] \<Rightarrow> Inl TypeError
                | f # _ \<Rightarrow> Inr (Some (replaceWorkspace f (executablePath cfg))))
           | Some a \<Rightarrow>
               if a \<noteq> [] then Inr (Some (replaceWorkspace a (executablePath cfg)))
               else (case folders of
                       [] \<Rightarrow> Inl TypeError
                     | f # _ \<Rightarrow> Inr (Some (replaceWorkspace f (executablePath cfg))))))"

text \<open>\<^verbatim>\<open>this.getRealExecutablePath(uri) || this.executablePath\<close>.\<close>

definition executableOf :: "PHPCSFixerConfig \<Rightarrow> string option \<Rightarrow> string" where
  "executableOf cfg resolved =
     (case resolved of
        None \<Rightarrow> executablePath cfg
      | Some p \<Rightarrow> if p = [] then executablePath cfg else p)"

section \<open>Interpreting the result of the process: \<^verbatim>\<open>format\<close> and \<^verbatim>\<open>fix\<close>\<close>

definition isSep :: "char \<Rightarrow> bool" where
  "isSep c = (c = CHR 0x5C \<or> c = CHR ''/'')"

definition isLineTerminator :: "char \<Rightarrow> bool" where
  "isLineTerminator c = (c = LF \<or> c = CR)"

text \<open>
  \<^verbatim>\<open>s.replace(/^.*[\\/]/, '/')\<close>: the dot matches no line terminator, so the text up to the
  last separator of the first line becomes a slash.
\<close>

definition replaceDir :: "string \<Rightarrow> string" where
  "replaceDir s =
     (let line1 = takeWhile (\<lambda>c. \<not> isLineTerminator c) s;
          rest = dropWhile (\<lambda>c. \<not> isLineTerminator c) s
      in if list_ex isSep line1
         then ''/'' @ rev (takeWhile (\<lambda>c. \<not> isSep c) (rev line1)) @ rest
         else s)"

text \<open>Lines 145 to 150: the path of the scratch file.\<close>

definition scratchPath :: "host \<Rightarrow> Uri \<Rightarrow> bool \<Rightarrow> string" where
  "scratchPath h uri isPartial =
     (if isPartial then TmpDir h @ ''/php-cs-fixer-partial.php''
      else TmpDir h @ replaceDir (fsPath uri))"

text \<open>The truth value of a parsed value, as \<^verbatim>\<open>result && ...\<close> tests it.\<close>

fun truthy :: "jsvalue \<Rightarrow> bool" where
  "truthy JNull = False"
| "truthy (JBool b) = b"
| "truthy (JNumber r) = (r \<noteq> 0)"
| "truthy (JString s) = (s \<noteq> [])"
| "truthy (JArray a) = True"
| "truthy (JObject kvs) = True"

text \<open>
  Reading the property \<^verbatim>\<open>files\<close> or \<^verbatim>\<open>length\<close> of a value other than \<^verbatim>\<open>null\<close>; \<^verbatim>\<open>None\<close> is
  \<^verbatim>\<open>undefined\<close>. In an object the last entry of a repeated key counts.
\<close>

fun getProp :: "jsvalue \<Rightarrow> string \<Rightarrow> jsvalue option" where
  "getProp (JObject kvs) k = map_of (rev kvs) k"
| "getProp (JArray a) k = (if k = ''length'' then Some (JNumber (real (length a))) else None)"
| "getProp (JString s) k = (if k = ''length'' then Some (JNumber (real (length s))) else None)"
| "getProp v k = None"

text \<open>\<^verbatim>\<open>x > 0\<close> for a value or \<^verbatim>\<open>undefined\<close>.\<close>

definition gtZero :: "host \<Rightarrow> jsvalue option \<Rightarrow> bool" where
  "gtZero h x =
     (case x of
        None \<Rightarrow> False
      | Some (JNumber r) \<Rightarrow> 0 < r
      | Some v \<Rightarrow> (case toNumber h v of None \<Rightarrow> False | Some r \<Rightarrow> 0 < r))"

text \<open>Line 170: \<^verbatim>\<open>result && result.files.length > 0\<close>, or the \<^verbatim>\<open>TypeError\<close> it throws.\<close>

definition filesChanged :: "host \<Rightarrow> jsvalue \<Rightarrow> reason + bool" where
  "filesChanged h result =
     (if \<not> truthy result then Inr False
      else (case getProp result ''files'' of
              None \<Rightarrow> Inl TypeError
            | Some JNull \<Rightarrow> Inl TypeError
            | Some f \<Rightarrow> Inr (gtZero h (getProp f ''length''))))"

text \<open>
  Line 173: \<^verbatim>\<open>stderr.split(/\r?\n/).filter(Boolean)\<close>. A piece that ends at a line feed
  loses one carriage return before it.
\<close>

definition stripCR :: "string \<Rightarrow> string" where
  "stripCR p = (if p \<noteq> [] \<and> last p = CR then butlast p else p)"

fun dropCRs :: "string list \<Rightarrow> string list" where
  "dropCRs [] = []"
| "dropCRs [p] = [p]"
| "dropCRs (p # q # ps) = stripCR p # dropCRs (q # ps)"

definition nonEmptyLines :: "string \<Rightarrow> string list" where
  "nonEmptyLines s = filter (\<lambda>l. l \<noteq> []) (dropCRs (split_on LF s))"

text \<open>
  Line 197: the first match of
  \<^verbatim>\<open>/PHP (?:Fatal|Parse) error:\s*Uncaught Error:[^\r?\n]+/\<close>. \<^verbatim>\<open>uncaughtAt\<close> matches at
  the start of its argument, \<^verbatim>\<open>uncaughtMatch\<close> searches from left to right.
\<close>

definition uncaughtAt :: "string \<Rightarrow> string option" where
  "uncaughtAt s =
     (if startsWith s ''PHP Fatal error:'' \<or> startsWith s ''PHP Parse error:''
      then (let r = dropWhile isSpace (drop 16 s)
            in if startsWith r ''Uncaught Error:''
               then (let run = takeWhile (\<lambda>c. c \<noteq> CR \<and> c \<noteq> CHR ''?'' \<and> c \<noteq> LF) (drop 15 r)
                     in if run = [] then None
                        else Some (take (length s - length r + 15 + length run) s))
               else None)
      else None)"

fun uncaughtMatch :: "string \<Rightarrow> string option" where
  "uncaughtMatch [] = None"
| "uncaughtMatch (c # cs) =
     (case uncaughtAt (c # cs) of
        Some m \<Rightarrow> Some m
      | None \<Rightarrow> uncaughtMatch cs)"

text \<open>The properties \<^verbatim>\<open>code\<close>, \<^verbatim>\<open>exitCode\<close>, \<^verbatim>\<open>stdout\<close> and \<^verbatim>\<open>stderr\<close> of a caught error.\<close>

fun codeOf :: "reason \<Rightarrow> string option" where
  "codeOf (ProcessError e) = code e"
| "codeOf (FsError c) = Some c"
| "codeOf r = None"

fun exitCodeOf :: "reason \<Rightarrow> int option" where
  "exitCodeOf (ProcessError e) = exitCode e"
| "exitCodeOf r = None"

fun stdoutOf :: "reason \<Rightarrow> string option" where
  "stdoutOf (ProcessError e) = stdout e"
| "stdoutOf r = None"

fun stderrOf :: "reason \<Rightarrow> string option" where
  "stderrOf (ProcessError e) = stderr e"
| "stderrOf r = None"

text \<open>Lines 192 to 198: \<^verbatim>\<open>msgs[err.exitCode]\<close>, \<^verbatim>\<open>None\<close> for a code the table does not have.\<close>

definition msgs :: "reason \<Rightarrow> int \<Rightarrow> string option" where
  "msgs err n =
     (if n = 1 then
        Some (case stdoutOf err of
                None \<Rightarrow> ''General error (or PHP minimal requirement not matched).''
              | Some s \<Rightarrow> if s \<noteq> [] then s
                          else ''General error (or PHP minimal requirement not matched).'')
      else if n = 16 then Some ''Configuration error of the application.''
      else if n = 32 then Some ''Configuration error of a Fixer.''
      else if n = 64 then Some ''Exception raised within the application.''
      else if n = 255 then
        Some (case stderrOf err of
                None \<Rightarrow> ''PHP Fatal error, click to show output.''
              | Some s \<Rightarrow> (case uncaughtMatch s of
                             None \<Rightarrow> ''PHP Fatal error, click to show output.''
                           | Some m \<Rightarrow> m))
      else None)"

text \<open>
  Lines 162 to 183, the handler of \<^verbatim>\<open>then\<close>. \<^verbatim>\<open>Resolves\<close> and \<^verbatim>\<open>Rejects\<close> say how the handler
  settled the promise of \<^verbatim>\<open>format\<close>; \<^verbatim>\<open>Throws\<close> is an exception that leaves the handler and
  reaches the handler of \<^verbatim>\<open>catch\<close>.
\<close>

definition formatThen ::
  "host \<Rightarrow> string \<Rightarrow> string \<Rightarrow> bool \<Rightarrow> bool \<Rightarrow> string \<Rightarrow> string \<Rightarrow> world \<Rightarrow> string completion \<times> world" where
  "formatThen h text filePath isDiff isPartial out errText w =
     (let w1 = logEv [Output out] w
      in if isDiff then (Resolves filePath, w1)
         else (case JSON_parse h out of
                 None \<Rightarrow> (Throws SyntaxError, w1)
               | Some result \<Rightarrow>
                   (case filesChanged h result of
                      Inl e \<Rightarrow> (Throws e, w1)
                    | Inr True \<Rightarrow>
                        (case disk w1 filePath of
                           None \<Rightarrow> (Throws (FsError ''ENOENT''), w1)
                         | Some content \<Rightarrow> (Resolves content, logEv [HideStatusBar] w1))
                    | Inr False \<Rightarrow>
                        (let lines = nonEmptyLines errText
                         in if length lines > 1
                            then (Rejects (Error errText),
                                  logEv (Output errText #
                                         (if isPartial then [] else [StatusInfo (Some (lines ! 1))])) w1)
                            else (Resolves text, logEv [HideStatusBar] w1)))))"

text \<open>Lines 184 to 201, the handler of \<^verbatim>\<open>catch\<close>.\<close>

definition formatCatch :: "bool \<Rightarrow> reason \<Rightarrow> world \<Rightarrow> string completion \<times> world" where
  "formatCatch isPartial err w =
     (Rejects err,
      logEv
        ((case stderrOf err of
            None \<Rightarrow> [OutputError err]
          | Some s \<Rightarrow> if s \<noteq> [] then [Output s] else [OutputError err])
         @ (if isPartial then [] else [StatusInfo (Some ''failed'')])
         @ (if codeOf err = Some ''ENOENT'' then [ErrorTip]
            else (case exitCodeOf err of
                    None \<Rightarrow> []
                  | Some n \<Rightarrow>
                      if n = 0 then []
                      else if isPartial then []
                      else [StatusInfo (msgs err n)])))
        w)"

text \<open>
  The handlers of \<^verbatim>\<open>then\<close> and \<^verbatim>\<open>catch\<close> on the result of the process: how they settle the
  promise of \<^verbatim>\<open>format\<close>, and the state when the settling handler has returned.
\<close>

definition formatChain ::
  "host \<Rightarrow> string \<Rightarrow> string \<Rightarrow> bool \<Rightarrow> bool \<Rightarrow> runResult \<Rightarrow> world \<Rightarrow> string completion \<times> world" where
  "formatChain h text filePath isDiff isPartial res w =
     (case res of
        Fulfilled out errText \<Rightarrow>
          (case formatThen h text filePath isDiff isPartial out errText w of
             (Throws e, w1) \<Rightarrow> formatCatch isPartial e w1
           | (c, w1) \<Rightarrow> (c, w1))
      | Failed e \<Rightarrow> formatCatch isPartial (ProcessError e) w)"

text \<open>
  Lines 202 to 207, the handler of \<^verbatim>\<open>finally\<close>: it clears the flag and, for a call that is
  not a diff, calls \<^verbatim>\<open>fs.unlink\<close> for the scratch file. \<^verbatim>\<open>fs.unlink\<close> is asynchronous: the
  call only starts the deletion. \<^verbatim>\<open>unlinkDone\<close> is its completion, later: the file is gone,
  or it stays when the deletion fails (the callback ignores the error).
\<close>

definition formatFinally :: "bool \<Rightarrow> string \<Rightarrow> world \<Rightarrow> world" where
  "formatFinally isDiff filePath w =
     (let w1 = w\<lparr>isRunning := False\<rparr>
      in if isDiff then w1 else logEv [Unlink filePath] w1)"

definition unlinkDone :: "host \<Rightarrow> string \<Rightarrow> world \<Rightarrow> world" where
  "unlinkDone h p w = (if unlinkFails h p then w else w\<lparr>disk := (disk w)(p := None)\<rparr>)"

text \<open>
  \<^verbatim>\<open>format(text, uri, isDiff, isPartial)\<close> in parts. \<^verbatim>\<open>formatEnter\<close> is lines 141 to 158 and
  the arguments of \<^verbatim>\<open>runAsync\<close> on line 161: it ends with an exception of the call (the
  write failed), with a promise rejected by an exception in its executor, before any
  handler is attached, or with the executable, the arguments and the working directory
  of the process.

  \<^verbatim>\<open>formatSettle\<close> is what happens once the process has ended, in the order of the job
  queue. The promise of \<^verbatim>\<open>format\<close> is settled inside the handler of \<^verbatim>\<open>then\<close> or of \<^verbatim>\<open>catch\<close>.
  A handler that the caller attached for fulfilment is queued at that moment; the handler
  of \<^verbatim>\<open>finally\<close> is queued only after the settling handler has returned and the promise
  of \<^verbatim>\<open>catch\<close> has been fulfilled. So the caller's handler runs first, with the flag still
  set and the scratch file still on disk, then the handler of \<^verbatim>\<open>finally\<close>, and after that
  the deletion completes. \<open>onFulfilled\<close> is the caller's handler, as a change of the state.
  The handlers the callers attach for a rejection write to the console or reject a
  promise of their own; they change nothing of the state.

  \<^verbatim>\<open>formatWith\<close> is a call of \<^verbatim>\<open>format\<close> with such a handler attached, and \<^verbatim>\<open>format\<close> a call
  whose handler leaves the state as it is: both give how the promise settles and the
  state when all this has run.
\<close>

definition formatEnter ::
  "host \<Rightarrow> PHPCSFixerConfig \<Rightarrow> string \<Rightarrow> Uri \<Rightarrow> bool \<Rightarrow> world
     \<Rightarrow> (string completion + string \<times> string list \<times> string option) \<times> world" where
  "formatEnter h cfg text uri isPartial w =
     (let w1 = logEv (ClearOutput # (if isPartial then [] else [StatusInfo (Some ''formatting'')]))
                 (w\<lparr>isRunning := True\<rparr>);
          filePath = scratchPath h uri isPartial;
          w2 = logEv [WriteFile filePath text] w1
      in case writeFileError h filePath of
           Some c \<Rightarrow> (Inl (Throws (FsError c)), w2)
         | None \<Rightarrow>
             (let w3 = w2\<lparr>disk := (disk w2)(filePath \<mapsto> text)\<rparr>;
                  args = fst (getArgs h (\<lambda>p. disk w3 p \<noteq> None) cfg uri (Some filePath));
                  w4 = logEv [OutputArgs args] w3;
                  cwd = (if scheme uri = ''file'' then Some (dirname h (fsPath uri)) else None)
              in case getRealExecutablePath h cfg uri of
                   Inl e \<Rightarrow> (Inl (Rejects e), w4)
                 | Inr resolved \<Rightarrow> (Inr (executableOf cfg resolved, args, cwd), w4)))"

definition formatSettle ::
  "(string \<Rightarrow> world \<Rightarrow> world) \<Rightarrow> host \<Rightarrow> string \<Rightarrow> string \<Rightarrow> bool \<Rightarrow> bool \<Rightarrow> runResult \<Rightarrow> world
     \<Rightarrow> string completion \<times> world" where
  "formatSettle onFulfilled h text filePath isDiff isPartial res w =
     (case formatChain h text filePath isDiff isPartial res w of
        (c, w1) \<Rightarrow>
          (let w2 = (case c of Resolves t \<Rightarrow> onFulfilled t w1 | _ \<Rightarrow> w1);
               w3 = formatFinally isDiff filePath w2
           in (c, if isDiff then w3 else unlinkDone h filePath w3)))"

definition formatWith ::
  "(string \<Rightarrow> world \<Rightarrow> world) \<Rightarrow> host \<Rightarrow> PHPCSFixerConfig \<Rightarrow> string \<Rightarrow> Uri \<Rightarrow> bool \<Rightarrow> bool \<Rightarrow> world
     \<Rightarrow> string completion \<times> world" where
  "formatWith onFulfilled h cfg text uri isDiff isPartial w =
     (case formatEnter h cfg text uri isPartial w of
        (Inl c, w1) \<Rightarrow> (c, w1)
      | (Inr (exe, args, cwd), w1) \<Rightarrow>
          (case runAsync h exe args cwd (disk w1) of
             (res, d) \<Rightarrow>
               formatSettle onFulfilled h text (scratchPath h uri isPartial) isDiff isPartial res
                 (logEv [RunAsync exe args cwd] (w1\<lparr>disk := d\<rparr>))))"

definition format ::
  "host \<Rightarrow> PHPCSFixerConfig \<Rightarrow> string \<Rightarrow> Uri \<Rightarrow> bool \<Rightarrow> bool \<Rightarrow> world \<Rightarrow> string completion \<times> world" where
  "format h cfg text uri isDiff isPartial w = formatWith (\<lambda>t v. v) h cfg text uri isDiff isPartial w"

text \<open>
  \<^verbatim>\<open>fix(uri)\<close> (\<^verbatim>\<open>fix\<close> is a keyword here, hence the name), with the state when the
  handlers have run; the first component is the exception of the call, if it throws. The callback that copies the output of the
  process to the output channel is left out.
\<close>

definition fixFile :: "host \<Rightarrow> PHPCSFixerConfig \<Rightarrow> Uri \<Rightarrow> world \<Rightarrow> reason option \<times> world" where
  "fixFile h cfg uri w =
     (let w1 = logEv [ClearOutput, StatusInfo (Some ''fixing'')] (w\<lparr>isRunning := True\<rparr>);
          args = fst (getArgs h (\<lambda>p. disk w1 p \<noteq> None) cfg uri None);
          w2 = logEv [OutputArgs args] w1;
          cwd = (if fsPath uri \<noteq> [] then Some (dirname h (fsPath uri)) else None)
      in case getRealExecutablePath h cfg uri of
           Inl e \<Rightarrow> (Some e, w2)
         | Inr resolved \<Rightarrow>
             (case runAsync h (executableOf cfg resolved) args cwd (disk w2) of
                (res, d) \<Rightarrow>
                  (let w3 = logEv [RunAsync (executableOf cfg resolved) args cwd] (w2\<lparr>disk := d\<rparr>);
                       w4 = (case res of
                               Fulfilled out errText \<Rightarrow> logEv [HideStatusBar] w3
                             | Failed e \<Rightarrow>
                                 logEv (StatusInfo (Some ''failed'')
                                        # (if code e = Some ''ENOENT'' then [ErrorTip] else [])) w3)
                   in (None, w4\<lparr>isRunning := False\<rparr>))))"

section \<open>The configuration resolver: \<^verbatim>\<open>loadSettings\<close>\<close>

text \<open>A setting that may be \<^verbatim>\<open>undefined\<close>, \<^verbatim>\<open>null\<close> or a value.\<close>

datatype 'a nullable = Undefined | Null | Defined 'a

text \<open>
  The setting \<^verbatim>\<open>rules\<close> is a string or an object; an object comes with the text
  \<^verbatim>\<open>JSON.stringify\<close> gives for it.
\<close>

datatype rulesSetting = RulesString string | RulesObject string

text \<open>
  What \<^verbatim>\<open>loadSettings\<close> reads: \<^verbatim>\<open>process.platform\<close>, \<^verbatim>\<open>__dirname\<close>, and the settings of the
  editor; \<^verbatim>\<open>None\<close> is a setting that is not there, so that \<^verbatim>\<open>config.get(key, default)\<close>
  gives the default.
\<close>

record settings =
  platform :: string
  extensionPath :: string
  get_onsave :: "bool option"
  get_autoFixByBracket :: "bool option"
  get_autoFixBySemicolon :: "bool option"
  get_executablePath :: "string option"
  get_executablePathWindows :: "string option"
  get_rules :: "rulesSetting option"
  get_config :: "string option"
  get_formatHtml :: "bool option"
  get_documentFormattingProvider :: "bool option"
  get_allowRisky :: "bool option"
  get_pathMode :: "string option"
  get_exclude :: "string list option"
  get_phpValidateExecutablePath :: "string nullable"
  get_editorFormatOnSave :: "bool option"
  get_filesAutoSave :: "string option"
  get_filesAutoSaveDelay :: "int option"

definition getOr :: "'a option \<Rightarrow> 'a \<Rightarrow> 'a" where
  "getOr v d = (case v of None \<Rightarrow> d | Some x \<Rightarrow> x)"

text \<open>
  \<^verbatim>\<open>s.replace(pattern, template)\<close> for a pattern that is a string: the first occurrence is
  replaced. \<^verbatim>\<open>splitAtFirst\<close> gives the text before and after the first occurrence.
\<close>

fun splitAtFirst :: "string \<Rightarrow> string \<Rightarrow> (string \<times> string) option" where
  "splitAtFirst pat [] = (if pat = [] then Some ([], []) else None)"
| "splitAtFirst pat (c # cs) =
     (if startsWith (c # cs) pat then Some ([], drop (length pat) (c # cs))
      else (case splitAtFirst pat cs of
              None \<Rightarrow> None
            | Some (b, a) \<Rightarrow> Some (c # b, a)))"

definition replaceFirst :: "string \<Rightarrow> string \<Rightarrow> string \<Rightarrow> string" where
  "replaceFirst pat template s =
     (case splitAtFirst pat s of
        None \<Rightarrow> s
      | Some (b, a) \<Rightarrow> b @ getSubstitution pat b a [] template @ a)"

text \<open>Lines 27 to 32: the executable path as configured, with its placeholders replaced.\<close>

definition resolveExecutablePath :: "host \<Rightarrow> settings \<Rightarrow> string" where
  "resolveExecutablePath h st =
     (let p0 = getOr (get_executablePath st)
                 (if platform st = ''win32'' then ''php-cs-fixer.bat'' else ''php-cs-fixer'');
          p1 = (case get_executablePathWindows st of
                  None \<Rightarrow> p0
                | Some pw \<Rightarrow> if platform st = ''win32'' \<and> length pw > 0 then pw else p0)
      in replaceHome (homedir h) (replaceFirst ''${extensionPath}'' (extensionPath st) p1))"

text \<open>
  Line 45, \<^verbatim>\<open>s.replace(/^php[^ ]* /i, '')\<close>: \<^verbatim>\<open>php\<close> in either case, the characters up to the
  next space, and that space are removed from the start.
\<close>

definition stripInterpreter :: "string \<Rightarrow> string" where
  "stripInterpreter s =
     (case s of
        c1 # c2 # c3 # r \<Rightarrow>
          if (c1 = CHR ''p'' \<or> c1 = CHR ''P'') \<and> (c2 = CHR ''h'' \<or> c2 = CHR ''H'')
             \<and> (c3 = CHR ''p'' \<or> c3 = CHR ''P'')
          then (case dropWhile (\<lambda>c. c \<noteq> CHR '' '') r of
                  [] \<Rightarrow> s
                | sp # t \<Rightarrow> t)
          else s
      | _ \<Rightarrow> s)"

text \<open>Lines 46 to 49: the interpreter, from the setting \<^verbatim>\<open>php.validate.executablePath\<close>.\<close>

definition interpreter :: "settings \<Rightarrow> string" where
  "interpreter st =
     (case get_phpValidateExecutablePath st of
        Undefined \<Rightarrow> ''php''
      | Null \<Rightarrow> ''php''
      | Defined p \<Rightarrow> if length p = 0 then ''php'' else p)"

definition loadSettings :: "host \<Rightarrow> settings \<Rightarrow> PHPCSFixerConfig" where
  "loadSettings h st =
     (let resolved = resolveExecutablePath h st
      in \<lparr> onsave = getOr (get_onsave st) False,
           autoFixByBracket = getOr (get_autoFixByBracket st) True,
           autoFixBySemicolon = getOr (get_autoFixBySemicolon st) False,
           executablePath = (if endsWith resolved ''.phar'' then interpreter st else resolved),
           rules = (case get_rules st of
                      None \<Rightarrow> ''@PSR12''
                    | Some (RulesString r) \<Rightarrow> r
                    | Some (RulesObject json) \<Rightarrow> json),
           config = getOr (get_config st) ''.php-cs-fixer.php;.php-cs-fixer.dist.php;.php_cs;.php_cs.dist'',
           formatHtml = getOr (get_formatHtml st) False,
           documentFormattingProvider = getOr (get_documentFormattingProvider st) True,
           allowRisky = getOr (get_allowRisky st) False,
           pathMode = getOr (get_pathMode st) ''override'',
           exclude = getOr (get_exclude st) [],
           pharPath = (if endsWith resolved ''.phar'' then Some (stripInterpreter resolved) else None),
           editorFormatOnSave = get_editorFormatOnSave st,
           fileAutoSave = get_filesAutoSave st,
           fileAutoSaveDelay = getOr (get_filesAutoSaveDelay st) 1000 \<rparr>)"

section \<open>The document and the cursor\<close>

text \<open>
  A position is a line and a character, both from 0. The editor moves a position into
  the document before it uses it.
\<close>

definition validatePosition :: "string list \<Rightarrow> nat \<times> nat \<Rightarrow> nat \<times> nat" where
  "validatePosition ls p =
     (case p of (l, c) \<Rightarrow>
        if ls = [] then (0, 0)
        else if l \<ge> length ls then (length ls - 1, length (last ls))
        else (l, min c (length (ls ! l))))"

text \<open>\<^verbatim>\<open>document.offsetAt(position)\<close>.\<close>

definition offsetAt :: "world \<Rightarrow> nat \<times> nat \<Rightarrow> nat" where
  "offsetAt w p =
     (case validatePosition (docLines w) p of (l, c) \<Rightarrow>
        sum_list (map (\<lambda>s. length s + length (docEol w)) (take l (docLines w))) + c)"

text \<open>
  \<^verbatim>\<open>new Range(a, b)\<close> as the document reads it: both positions inside the document, the
  earlier one first.
\<close>

definition normRange :: "string list \<Rightarrow> (nat \<times> nat) \<times> (nat \<times> nat) \<Rightarrow> (nat \<times> nat) \<times> (nat \<times> nat)" where
  "normRange ls r =
     (case r of (a, b) \<Rightarrow>
        (case (validatePosition ls a, validatePosition ls b) of
           ((la, ca), (lb, cb)) \<Rightarrow>
             if la < lb \<or> (la = lb \<and> ca \<le> cb) then ((la, ca), (lb, cb))
             else ((lb, cb), (la, ca))))"

text \<open>\<^verbatim>\<open>document.getText(range)\<close>.\<close>

definition getText :: "world \<Rightarrow> (nat \<times> nat) \<times> (nat \<times> nat) \<Rightarrow> string" where
  "getText w r =
     (case normRange (docLines w) r of
        ((l1, c1), (l2, c2)) \<Rightarrow>
          if docLines w = [] then []
          else if l1 = l2 then take (c2 - c1) (drop c1 (docLines w ! l1))
          else drop c1 (docLines w ! l1) @ docEol w
               @ concat (map (\<lambda>s. s @ docEol w) (take (l2 - l1 - 1) (drop (Suc l1) (docLines w))))
               @ take c2 (docLines w ! l2))"

text \<open>
  The two cursor commands. \<^verbatim>\<open>editor.action.jumpToBracket\<close> puts the cursor where the host
  says; a cursor that moved can be taken back by \<^verbatim>\<open>cursorUndo\<close>, which restores the
  position before the last move.
\<close>

definition jump :: "host \<Rightarrow> world \<Rightarrow> world" where
  "jump h w =
     (let target = jumpToBracket h (docLines w) (selectionStart w)
      in logEv [ExecuteCommand ''editor.action.jumpToBracket'']
           (if target = selectionStart w then w
            else w\<lparr>selectionStart := target, cursorStack := selectionStart w # cursorStack w\<rparr>))"

definition cursorUndo :: "world \<Rightarrow> world" where
  "cursorUndo w =
     logEv [ExecuteCommand ''cursorUndo'']
       (case cursorStack w of
          [] \<Rightarrow> w
        | p # ps \<Rightarrow> w\<lparr>selectionStart := p, cursorStack := ps\<rparr>)"

text \<open>The lines of a text: a line ends at a line feed, a carriage return or both.\<close>

fun breakLines :: "string \<Rightarrow> string list" where
  "breakLines [] = [[]]"
| "breakLines (c # cs) =
     (if c = LF then [] # breakLines cs
      else if c = CR then
        (case cs of
           [] \<Rightarrow> [[], []]
         | d # ds \<Rightarrow> if d = LF then [] # breakLines ds else [] # breakLines cs)
      else (case breakLines cs of
              [] \<Rightarrow> [[c]]
            | l # ls \<Rightarrow> (c # l) # ls))"

text \<open>
  \<^verbatim>\<open>editor.edit(builder => builder.replace(range, text))\<close> calls its callback at once, which
  hands the replacement to the editor (the event \<^verbatim>\<open>Replace\<close>); the editor applies it later.
  \<^verbatim>\<open>replaceRange\<close> is that later step: the edit, taken as applied, and then the handler of
  its promise, which runs \<^verbatim>\<open>cancelSelection\<close> (an editor always has a selection).
\<close>

definition replaceRange :: "(nat \<times> nat) \<times> (nat \<times> nat) \<Rightarrow> string \<Rightarrow> world \<Rightarrow> world" where
  "replaceRange r t w =
     logEv [ExecuteCommand ''cancelSelection'']
       (case normRange (docLines w) r of
          ((l1, c1), (l2, c2)) \<Rightarrow>
            if docLines w = [] then w\<lparr>docLines := breakLines t\<rparr>
            else w\<lparr>docLines := take l1 (docLines w)
                               @ breakLines (take c1 (docLines w ! l1) @ t @ drop c2 (docLines w ! l2))
                               @ drop (Suc l2) (docLines w)\<rparr>)"

text \<open>
  Lines 312 to 325 and 351 to 364, the handler the two triggers attach to the promise of
  \<^verbatim>\<open>format\<close>, for the function \<open>deal\<close> that unwraps a text. \<^verbatim>\<open>editRequested\<close> is the handler
  itself: when the unwrapped result differs from the unwrapped original it hands the
  replacement of the range to the editor. \<^verbatim>\<open>editApplied\<close> is what the editor does with it
  afterwards. The edit changes the document only and the completion of \<^verbatim>\<open>fs.unlink\<close> the
  disk only, so the order of these two does not matter.
\<close>

definition editRequested ::
  "(string \<Rightarrow> string) \<Rightarrow> string \<Rightarrow> (nat \<times> nat) \<times> (nat \<times> nat) \<Rightarrow> string \<Rightarrow> world \<Rightarrow> world" where
  "editRequested deal originalText rng text w =
     (if deal text \<noteq> deal originalText then logEv [Replace rng (deal text)] w else w)"

definition editApplied ::
  "(string \<Rightarrow> string) \<Rightarrow> string \<Rightarrow> (nat \<times> nat) \<times> (nat \<times> nat) \<Rightarrow> string \<Rightarrow> world \<Rightarrow> world" where
  "editApplied deal originalText rng text w =
     (if deal text \<noteq> deal originalText then replaceRange rng (deal text) w else w)"

section \<open>The incremental triggers\<close>

text \<open>Line 253, \<^verbatim>\<open>/^\s*\}$/.test(pressedKey)\<close>.\<close>

definition isClosingBrace :: "string \<Rightarrow> bool" where
  "isClosingBrace pressedKey = (dropWhile isSpace pressedKey = ''}'')"

subsection \<open>Regular expressions for the statement headers\<close>

text \<open>
  Line 282 and line 287 only ask whether a regular expression matches somewhere in a
  line (\<^verbatim>\<open>search(...) > -1\<close>), so the expressions are modelled by the language they accept,
  with derivatives. A symbol is a test on one character.
\<close>

datatype rx = Nothing | Empty | Sym "char \<Rightarrow> bool" | Alt rx rx | Seq rx rx | Star rx

fun emptyOk :: "rx \<Rightarrow> bool" where
  "emptyOk Nothing = False"
| "emptyOk Empty = True"
| "emptyOk (Sym p) = False"
| "emptyOk (Alt r s) = (emptyOk r \<or> emptyOk s)"
| "emptyOk (Seq r s) = (emptyOk r \<and> emptyOk s)"
| "emptyOk (Star r) = True"

fun deriv :: "char \<Rightarrow> rx \<Rightarrow> rx" where
  "deriv c Nothing = Nothing"
| "deriv c Empty = Nothing"
| "deriv c (Sym p) = (if p c then Empty else Nothing)"
| "deriv c (Alt r s) = Alt (deriv c r) (deriv c s)"
| "deriv c (Seq r s) =
     (if emptyOk r then Alt (Seq (deriv c r) s) (deriv c s) else Seq (deriv c r) s)"
| "deriv c (Star r) = Seq (deriv c r) (Star r)"

definition matches :: "rx \<Rightarrow> string \<Rightarrow> bool" where
  "matches r s = emptyOk (foldl (\<lambda>r c. deriv c r) r s)"

text \<open>Whether a test holds for the text from some position on, the end included.\<close>

fun anySuffix :: "(string \<Rightarrow> bool) \<Rightarrow> string \<Rightarrow> bool" where
  "anySuffix P [] = P []"
| "anySuffix P (c # cs) = (P (c # cs) \<or> anySuffix P cs)"

text \<open>The letters \<^verbatim>\<open>A\<close> to \<^verbatim>\<open>Z\<close> in lower case, for the flag \<^verbatim>\<open>i\<close>.\<close>

definition toLower :: "char \<Rightarrow> char" where
  "toLower c = (if 65 \<le> (of_char c :: nat) \<and> (of_char c :: nat) \<le> 90
              then char_of (of_char c + 32 :: nat) else c)"

definition isWord :: "char \<Rightarrow> bool" where
  "isWord c = ((97 \<le> (of_char (toLower c) :: nat) \<and> (of_char (toLower c) :: nat) \<le> 122)
               \<or> isDigit c \<or> c = CHR ''_'')"

text \<open>A word without regard to case, one or more, and the classes of the two expressions.\<close>

definition lit :: "string \<Rightarrow> rx" where
  "lit s = foldr (\<lambda>c r. Seq (Sym (\<lambda>d. toLower d = toLower c)) r) s Empty"

definition oneOrMore :: "rx \<Rightarrow> rx" where
  "oneOrMore r = Seq r (Star r)"

definition spaces :: rx where
  "spaces = Star (Sym isSpace)"

text \<open>\<^verbatim>\<open>\s*\(.+?\)\<close>\<close>

definition parenthesised :: rx where
  "parenthesised =
     Seq spaces (Seq (lit ''('') (Seq (oneOrMore (Sym (\<lambda>c. \<not> isLineTerminator c))) (lit '')'')))"

text \<open>
  The alternatives that may start anywhere:
  \<^verbatim>\<open>(if|for|foreach|while|switch)\s*\(.+?\)|(class|trait|interface)\s+[\w ]+|do|try\<close>.
\<close>

definition headerAnywhere :: rx where
  "headerAnywhere =
     Alt (Seq (Alt (lit ''if'') (Alt (lit ''for'') (Alt (lit ''foreach'')
                 (Alt (lit ''while'') (lit ''switch'')))))
              parenthesised)
         (Alt (Seq (Alt (lit ''class'') (Alt (lit ''trait'') (lit ''interface'')))
                   (Seq (oneOrMore (Sym isSpace)) (oneOrMore (Sym (\<lambda>c. isWord c \<or> c = CHR '' '')))))
              (Alt (lit ''do'') (lit ''try'')))"

text \<open>
  The alternatives tied to the start of the line:
  \<^verbatim>\<open>(^\s*function\s+\w+|^\s*function\s*)\s*\(.+?\)\<close>.
\<close>

definition headerAtStart :: rx where
  "headerAtStart =
     Seq (Alt (Seq spaces (Seq (lit ''function'') (Seq (oneOrMore (Sym isSpace)) (oneOrMore (Sym isWord)))))
              (Seq spaces (Seq (lit ''function'') spaces)))
         parenthesised"

text \<open>Line 282: the expression ends with \<^verbatim>\<open>\s*$\<close>. Line 287: it ends with \<^verbatim>\<open>\s*\{\s*$\<close>.\<close>

definition hasHeader :: "string \<Rightarrow> bool" where
  "hasHeader s =
     (matches (Seq headerAtStart spaces) s \<or> anySuffix (matches (Seq headerAnywhere spaces)) s)"

definition hasHeaderAndBrace :: "string \<Rightarrow> bool" where
  "hasHeaderAndBrace s =
     (matches (Seq headerAtStart (Seq spaces (Seq (lit ''{'') spaces))) s
      \<or> anySuffix (matches (Seq headerAnywhere (Seq spaces (Seq (lit ''{'') spaces)))) s)"

text \<open>
  Lines 277 and 346, \<^verbatim>\<open>dealFun\<close>: the prologue up to the marker statement is removed
  (\<^verbatim>\<open>/^<\?php[\s\S]+?\$__pcf__spliter\s*=\s*0;\r?\n/\<close>), then the white space at the end
  (\<^verbatim>\<open>/\s+$/\<close>, on line 277 \<^verbatim>\<open>/\s*$/\<close>). \<^verbatim>\<open>markerAt\<close> matches the marker statement and its line break at the start
  of its argument and gives the rest; \<^verbatim>\<open>findMarker\<close> takes the first place where it matches.
\<close>

definition markerAt :: "string \<Rightarrow> string option" where
  "markerAt s =
     (if startsWith s ''$__pcf__spliter''
      then (case dropWhile isSpace (drop 15 s) of
              [] \<Rightarrow> None
            | e # r \<Rightarrow>
                if e = CHR ''='' \<and> startsWith (dropWhile isSpace r) ''0;''
                then (case drop 2 (dropWhile isSpace r) of
                        [] \<Rightarrow> None
                      | x # r1 \<Rightarrow>
                          if x = LF then Some r1
                          else if x = CR then
                            (case r1 of
                               [] \<Rightarrow> None
                             | y # r2 \<Rightarrow> if y = LF then Some r2 else None)
                          else None)
                else None)
      else None)"

fun findMarker :: "string \<Rightarrow> string option" where
  "findMarker [] = None"
| "findMarker (c # cs) =
     (case markerAt (c # cs) of
        Some r \<Rightarrow> Some r
      | None \<Rightarrow> findMarker cs)"

definition stripPrologue :: "string \<Rightarrow> string" where
  "stripPrologue s =
     (if startsWith s ''<?php''
      then (case drop 5 s of
              [] \<Rightarrow> s
            | c # cs \<Rightarrow> (case findMarker cs of None \<Rightarrow> s | Some r \<Rightarrow> r))
      else s)"

definition trimEnd :: "string \<Rightarrow> string" where
  "trimEnd s = rev (dropWhile isSpace (rev s))"

definition dealFun :: "string \<Rightarrow> string" where
  "dealFun fixed = trimEnd (stripPrologue fixed)"

definition prologue :: string where
  "prologue = ''<?php'' @ [LF] @ ''$__pcf__spliter=0;'' @ [LF]"

text \<open>Line 279, \<^verbatim>\<open>/^\s*\{\s*$/.test(line.text)\<close>.\<close>

definition isBraceOnly :: "string \<Rightarrow> bool" where
  "isBraceOnly s =
     (case dropWhile isSpace s of
        [] \<Rightarrow> False
      | c # r \<Rightarrow> c = CHR ''{'' \<and> dropWhile isSpace r = [])"

text \<open>
  Line 294, \<^verbatim>\<open>line.text.match(/^(\s*)\S+/)[1]\<close>: the white space at the start of a line that
  has another character; without one the match is \<^verbatim>\<open>null\<close> and reading \<^verbatim>\<open>[1]\<close> throws.
\<close>

definition indentOf :: "string \<Rightarrow> string option" where
  "indentOf s = (if dropWhile isSpace s = [] then None else Some (takeWhile isSpace s))"

text \<open>
  Lines 295 to 303, the second \<^verbatim>\<open>dealFun\<close>: the first group of
  \<^verbatim>\<open>/^<\?php[\s\S]+?\$__pcf__spliter\s*=\s*0;\s+?if\s*\(\s*1\s*\)\s*(\{[\s\S]+?\})\s*$/i\<close>,
  or the empty string without a match. \<^verbatim>\<open>skipWord\<close> drops a word, without regard to case, from
  the start of a text; \<^verbatim>\<open>blockAt\<close> matches from the marker statement to the end and gives
  the group, the block from its opening brace to the closing brace that ends the text;
  \<^verbatim>\<open>findBlock\<close> takes the first place where it matches.
\<close>

definition skipWord :: "string \<Rightarrow> string \<Rightarrow> string option" where
  "skipWord word s =
     (if map toLower (take (length word) s) = map toLower word then Some (drop (length word) s)
      else None)"

definition blockAt :: "string \<Rightarrow> string option" where
  "blockAt s =
     (case skipWord ''$__pcf__spliter'' s of None \<Rightarrow> None | Some r1 \<Rightarrow>
      case skipWord ''='' (dropWhile isSpace r1) of None \<Rightarrow> None | Some r2 \<Rightarrow>
      case skipWord ''0;'' (dropWhile isSpace r2) of None \<Rightarrow> None | Some r3 \<Rightarrow>
      if takeWhile isSpace r3 = [] then None else
      case skipWord ''if'' (dropWhile isSpace r3) of None \<Rightarrow> None | Some r4 \<Rightarrow>
      case skipWord ''('' (dropWhile isSpace r4) of None \<Rightarrow> None | Some r5 \<Rightarrow>
      case skipWord ''1'' (dropWhile isSpace r5) of None \<Rightarrow> None | Some r6 \<Rightarrow>
      case skipWord '')'' (dropWhile isSpace r6) of None \<Rightarrow> None | Some r7 \<Rightarrow>
      case skipWord ''{'' (dropWhile isSpace r7) of None \<Rightarrow> None | Some r8 \<Rightarrow>
      (let block = trimEnd (CHR ''{'' # r8)
       in if length block \<ge> 3 \<and> last block = CHR ''}'' then Some block else None))"

fun findBlock :: "string \<Rightarrow> string option" where
  "findBlock [] = None"
| "findBlock (c # cs) =
     (case blockAt (c # cs) of
        Some b \<Rightarrow> Some b
      | None \<Rightarrow> findBlock cs)"

definition dealFunIf :: "string \<Rightarrow> string" where
  "dealFunIf fixed =
     (case skipWord ''<?php'' fixed of
        None \<Rightarrow> []
      | Some r \<Rightarrow>
          (case r of
             [] \<Rightarrow> []
           | c # cs \<Rightarrow> (case findBlock cs of None \<Rightarrow> [] | Some b \<Rightarrow> b)))"

text \<open>
  Lines 275 to 329 of \<^verbatim>\<open>doAutoFixByBracket\<close>, for the landing position \<open>start\<close>: the anchor
  of the range, the wrapper, the second \<^verbatim>\<open>cursorUndo\<close>, the partial format and the edit.
  An exception (\<^verbatim>\<open>lineAt(-1)\<close>, a match that is \<^verbatim>\<open>null\<close>, a failed write) ends the callback
  with the state as it is.
\<close>

definition bracketCandidate :: "host \<Rightarrow> PHPCSFixerConfig \<Rightarrow> nat \<times> nat \<Rightarrow> world \<Rightarrow> world" where
  "bracketCandidate h cfg start w =
     (let l = fst start;
          ls = docLines w
      in if l \<ge> length ls then w
         else if isBraceOnly (ls ! l) \<and> l = 0 then w
         else (let line = (if isBraceOnly (ls ! l) \<and> hasHeader (ls ! (l - 1)) then l - 1 else l);
                   found = (if isBraceOnly (ls ! l) then hasHeader (ls ! (l - 1))
                            else hasHeaderAndBrace (ls ! l))
               in case (if found then Some prologue
                        else (case indentOf (ls ! line) of
                                None \<Rightarrow> None
                              | Some indent \<Rightarrow> Some (prologue @ indent @ ''if(1)''))) of
                    None \<Rightarrow> w
                  | Some wrapper \<Rightarrow>
                      (let w1 = cursorUndo w;
                           rng = (if found then (line, 0) else start, selectionStart w1);
                           originalText = wrapper @ getText w1 rng;
                           deal = (if found then dealFun else dealFunIf)
                       in case formatWith (editRequested deal originalText rng)
                                 h cfg originalText (docUri w1) False True w1 of
                            (Resolves text, w2) \<Rightarrow> editApplied deal originalText rng text w2
                          | (c, w2) \<Rightarrow> w2)))"

text \<open>\<^verbatim>\<open>doAutoFixByBracket(event)\<close>; \<open>changes\<close> are the texts of \<^verbatim>\<open>event.contentChanges\<close>.\<close>

definition doAutoFixByBracket ::
  "host \<Rightarrow> PHPCSFixerConfig \<Rightarrow> string list \<Rightarrow> world \<Rightarrow> world" where
  "doAutoFixByBracket h cfg changes w =
     (case changes of
        [] \<Rightarrow> w
      | pressedKey # _ \<Rightarrow>
          if \<not> isClosingBrace pressedKey then w
          else (let originalStart = selectionStart w;
                    w1 = jump h w;
                    start = selectionStart w1;
                    offsetStart0 = offsetAt w1 originalStart;
                    offsetStart1 = offsetAt w1 start
                in if offsetStart0 = offsetStart1 then w1
                   else (let nextChar = getText w1 (start, (fst start, snd start + 1))
                         in if int offsetStart0 - int offsetStart1 < 3 \<or> nextChar \<noteq> ''{''
                            then cursorUndo w1
                            else bracketCandidate h cfg start w1)))"

text \<open>
  \<^verbatim>\<open>doAutoFixBySemicolon(event)\<close>; the first component is an exception that leaves the
  handler, and \<open>rng\<close> is \<^verbatim>\<open>line.range\<close>.
\<close>

definition doAutoFixBySemicolon ::
  "host \<Rightarrow> PHPCSFixerConfig \<Rightarrow> string list \<Rightarrow> world \<Rightarrow> reason option \<times> world" where
  "doAutoFixBySemicolon h cfg changes w =
     (case changes of
        [] \<Rightarrow> (None, w)
      | pressedKey # _ \<Rightarrow>
          if pressedKey \<noteq> '';'' then (None, w)
          else if fst (selectionStart w) \<ge> length (docLines w) then (Some IllegalArgument, w)
          else (let l = fst (selectionStart w);
                    lineText = docLines w ! l
                in if length lineText < 5 then (None, w)
                   else (let rng = ((l, 0), (l, length lineText));
                             originalText = prologue @ lineText
                         in case formatWith (editRequested dealFun originalText rng)
                                   h cfg originalText (docUri w) False True w of
                              (Throws e, w1) \<Rightarrow> (Some e, w1)
                            | (Rejects e, w1) \<Rightarrow> (None, w1)
                            | (Resolves text, w1) \<Rightarrow>
                                (None, editApplied dealFun originalText rng text w1))))"

section \<open>The range formatting provider\<close>






section \<open>Reading an argument list\<close>

text \<open>An argument that names a configuration file, and one that names a rule set.\<close>

definition isConfigArg :: "string \<Rightarrow> bool" where
  "isConfigArg a = startsWith a ''--config=''"

definition isRulesArg :: "string \<Rightarrow> bool" where
  "isRulesArg a = startsWith a ''--rules=''"

section \<open>Concrete inputs\<close>

text \<open>
  A POSIX host with the workspace folder \<^verbatim>\<open>/w\<close>; the process reports no changed file and
  leaves the disk as it is.
\<close>

definition exHost :: host where
  "exHost =
     \<lparr> TmpDir = ''/tmp'', homedir = ''/home/u'', isAbsolute = (\<lambda>p. startsWith p ''/''),
       dirname = (\<lambda>p. ''/w''), getWorkspaceFolder = (\<lambda>u. Some ''/w''),
       workspaceFolders = Some [''/w''],
       JSON_parse = (\<lambda>s. if s = ''{}'' then Some (JObject [(''files'', JArray [])])
                          else if s = ''{1}'' then Some (JObject [(''files'', JArray [JObject []])])
                          else None),
       toNumber = (\<lambda>v. None),
       runAsync = (\<lambda>exe args cwd d. (Fulfilled ''{}'' [], d)),
       writeFileError = (\<lambda>p. None), unlinkFails = (\<lambda>p. False),
       anymatch = (\<lambda>globs p. False), jumpToBracket = (\<lambda>ls p. p) \<rparr>"

definition exConfig :: PHPCSFixerConfig where
  "exConfig =
     \<lparr> onsave = False, autoFixByBracket = True, autoFixBySemicolon = False,
       executablePath = ''php-cs-fixer'', rules = ''@PSR12'', config = ''a.php;b.php'',
       formatHtml = False, documentFormattingProvider = True, allowRisky = False,
       pathMode = ''override'', exclude = [], pharPath = None,
       editorFormatOnSave = None, fileAutoSave = None, fileAutoSaveDelay = 1000 \<rparr>"

definition exUri :: Uri where
  "exUri = \<lparr> scheme = ''file'', fsPath = ''/w/x.php'', path = ''/w/x.php'' \<rparr>"

definition exUntitled :: Uri where
  "exUntitled = \<lparr> scheme = ''untitled'', fsPath = ''Untitled-1'', path = ''Untitled-1'' \<rparr>"

text \<open>The same host with a scratch directory that cannot be written.\<close>

definition exHostReadOnly :: host where
  "exHostReadOnly = exHost\<lparr>writeFileError := (\<lambda>p. Some ''EACCES'')\<rparr>"

text \<open>The same host with a process that fails with the given exit code and output.\<close>

definition exHostFailing :: "int \<Rightarrow> string \<Rightarrow> host" where
  "exHostFailing n errText =
     exHost\<lparr>runAsync := (\<lambda>exe args cwd d.
       (Failed \<lparr>code = None, exitCode = Some n, stdout = Some ''out'', stderr = Some errText\<rparr>, d))\<rparr>"

text \<open>
  The same host with a process that writes the given text to its last argument and
  reports one changed file.
\<close>

definition exHostFixing :: "string \<Rightarrow> host" where
  "exHostFixing fixed =
     exHost\<lparr>runAsync := (\<lambda>exe args cwd d. (Fulfilled ''{1}'' [], d(last args \<mapsto> fixed)))\<rparr>"

text \<open>The same host with a process that changes nothing and writes the given text to stderr.\<close>

definition exHostWarning :: "string \<Rightarrow> host" where
  "exHostWarning errText =
     exHost\<lparr>runAsync := (\<lambda>exe args cwd d. (Fulfilled ''{}'' errText, d))\<rparr>"

text \<open>Settings with an executable path that names an interpreter and an archive.\<close>

definition exSettings :: settings where
  "exSettings =
     \<lparr> platform = ''linux'', extensionPath = ''/ext'',
       get_onsave = None, get_autoFixByBracket = None, get_autoFixBySemicolon = None,
       get_executablePath = Some ''php7 /opt/fixer.phar'', get_executablePathWindows = None,
       get_rules = None, get_config = None, get_formatHtml = None,
       get_documentFormattingProvider = None, get_allowRisky = None, get_pathMode = None,
       get_exclude = None, get_phpValidateExecutablePath = Undefined,
       get_editorFormatOnSave = None, get_filesAutoSave = None, get_filesAutoSaveDelay = None \<rparr>"

definition exWorld :: world where
  "exWorld =
     \<lparr> isRunning = False, disk = Map.empty, trace = [],
       docLines = [''<?php'', ''$a=1;'', ''if ($a) {'', ''}''], docEol = [LF], docUri = exUri,
       docIsUntitled = False, selectionStart = (1, 5), cursorStack = [] \<rparr>"

text \<open>The same state with the cursor behind the closing brace of the last line.\<close>

definition exTyped :: world where
  "exTyped = exWorld\<lparr>selectionStart := (3, 1)\<rparr>"

text \<open>The same host with a jump to the given position.\<close>

definition exHostJump :: "nat \<times> nat \<Rightarrow> host" where
  "exHostJump target = exHost\<lparr>jumpToBracket := (\<lambda>ls p. target)\<rparr>"

text \<open>The same host with a glob matcher that matches the paths listed as they are.\<close>

definition exHostExcluding :: host where
  "exHostExcluding = exHost\<lparr>anymatch := (\<lambda>globs p. p \<in> set globs)\<rparr>"

text \<open>The same host with a workspace that has no folder.\<close>

definition exHostNoFolders :: host where
  "exHostNoFolders = exHost\<lparr>getWorkspaceFolder := (\<lambda>u. None), workspaceFolders := Some []\<rparr>"

text \<open>The arguments \<^verbatim>\<open>getArgs\<close> builds on that host for a scratch file.\<close>

definition exArgsFor :: "string \<Rightarrow> string list" where
  "exArgsFor p = [''fix'', ''--using-cache=no'', ''--format=json'', ''--rules=@PSR12'',
                  ''--path-mode=override'', p]"

section \<open>Reading the calls made\<close>

text \<open>The arguments of the calls to \<^verbatim>\<open>statusInfo\<close>, in order; the last is the status shown.\<close>

definition statusCalls :: "event list \<Rightarrow> string option list" where
  "statusCalls tr = concat (map (\<lambda>ev. case ev of StatusInfo m \<Rightarrow> [m] | _ \<Rightarrow> []) tr)"

section \<open>Properties of the invocation builder\<close>

lemma scanConfig_found: "snd (scanConfig ex fs) = find ex fs"
  by (induction fs) (auto split: prod.splits)

lemma scanConfig_probed:
  "fst (scanConfig ex fs) = takeWhile (\<lambda>c. \<not> ex c) fs @ take 1 (dropWhile (\<lambda>c. \<not> ex c) fs)"
  by (induction fs) (auto split: prod.splits)

lemma find_Some_ex: "(\<exists>c. find ex fs = Some c) \<longleftrightarrow> (\<exists>c\<in>set fs. ex c)"
  by (induction fs) auto

lemma candidateFiles_empty: "candidateFiles h r (configFiles h []) = []"
  by (simp add: candidateFiles_def configFiles_def)

lemma startsWith_shorter: "startsWith s (p @ q) \<Longrightarrow> startsWith s p"
proof -
  assume a: "startsWith s (p @ q)"
  have "take (length p) s = take (length p) (take (length (p @ q)) s)"
    by (simp add: min_def)
  also have "\<dots> = take (length p) (p @ q)"
    using a by (simp add: startsWith_def)
  finally show ?thesis by (simp add: startsWith_def)
qed

lemma option_args:
  "isConfigArg a \<Longrightarrow> startsWith a ''--''"
  "isRulesArg a \<Longrightarrow> startsWith a ''--''"
  using startsWith_shorter [of a "''--''" "''config=''"]
        startsWith_shorter [of a "''--''" "''rules=''"]
  by (simp_all add: isConfigArg_def isRulesArg_def)

text \<open>The argument list, part by part, in the order \<^verbatim>\<open>getArgs\<close> builds it.\<close>

lemma getArgs_shape:
  "fst (getArgs h ex cfg uri fp) =
     (case pharPath cfg of None \<Rightarrow> [] | Some p \<Rightarrow> [p])
     @ [''fix'', ''--using-cache=no'', ''--format=json'']
     @ (case find ex (candidateFiles h (getActiveWorkspacePath h uri) (configFiles h (config cfg))) of
          Some c \<Rightarrow> [''--config='' @ c]
        | None \<Rightarrow> if rules cfg \<noteq> [] then [''--rules='' @ rules cfg] else [])
     @ (if allowRisky cfg then [''--allow-risky=yes''] else [])
     @ [if startsWith (targetPath uri fp) (TmpDir h) then ''--path-mode=override''
        else ''--path-mode='' @ pathMode cfg,
        targetPath uri fp]"
  by (cases "config cfg = []")
     (simp_all add: getArgs_def Let_def scanConfig_found candidateFiles_empty split: option.splits)

lemmas ex_defs = exHost_def exConfig_def exUri_def

lemmas getArgs_eval = getArgs_def Let_def targetPath_def candidateFiles_def configFiles_def
  searchPaths_def getActiveWorkspacePath_def replaceHome_def startsWith_def

text \<open>
  C1, as the claim states it, fails: with an empty rule set and no configuration file on
  disk the argument list has neither a \<^verbatim>\<open>--config\<close> nor a \<^verbatim>\<open>--rules\<close> argument, because
  line 121 appends the rules only when \<^verbatim>\<open>this.rules\<close> is not empty.
\<close>

theorem getArgs_neither_counterexample:
  "fst (getArgs exHost (\<lambda>p. False) (exConfig\<lparr>rules := []\<rparr>) exUri None)
     = [''fix'', ''--using-cache=no'', ''--format=json'', ''--path-mode=override'', ''/w/x.php'']
   \<and> \<not> list_ex isConfigArg (fst (getArgs exHost (\<lambda>p. False) (exConfig\<lparr>rules := []\<rparr>) exUri None))
   \<and> \<not> list_ex isRulesArg (fst (getArgs exHost (\<lambda>p. False) (exConfig\<lparr>rules := []\<rparr>) exUri None))"
  by (simp add: getArgs_eval ex_defs isConfigArg_def isRulesArg_def)

text \<open>
  C1, amended: when neither the target path nor the archive path starts with \<^verbatim>\<open>--\<close>,
  the argument list of \<^verbatim>\<open>getArgs\<close> has a \<^verbatim>\<open>--config=\<close> argument iff the list of
  candidates is not empty and one of the expanded candidates exists on disk; it has a
  \<^verbatim>\<open>--rules=\<close> argument iff it has no \<^verbatim>\<open>--config=\<close> argument and the rule set is not
  empty; it never has both.
\<close>

theorem getArgs_config_or_rules:
  assumes "\<not> startsWith (targetPath uri filePath0) ''--''"
    and "\<forall>p. pharPath cfg = Some p \<longrightarrow> \<not> startsWith p ''--''"
  shows "(list_ex isConfigArg (fst (getArgs h ex cfg uri filePath0))
            \<longleftrightarrow> configFiles h (config cfg) \<noteq> []
                \<and> list_ex ex (candidateFiles h (getActiveWorkspacePath h uri) (configFiles h (config cfg))))
       \<and> (list_ex isRulesArg (fst (getArgs h ex cfg uri filePath0))
            \<longleftrightarrow> \<not> list_ex isConfigArg (fst (getArgs h ex cfg uri filePath0)) \<and> rules cfg \<noteq> [])
       \<and> \<not> (list_ex isConfigArg (fst (getArgs h ex cfg uri filePath0))
            \<and> list_ex isRulesArg (fst (getArgs h ex cfg uri filePath0)))"
proof -
  let ?files = "candidateFiles h (getActiveWorkspacePath h uri) (configFiles h (config cfg))"
  have ph: "list_ex isConfigArg (case pharPath cfg of None \<Rightarrow> [] | Some p \<Rightarrow> [p]) = False"
       "list_ex isRulesArg (case pharPath cfg of None \<Rightarrow> [] | Some p \<Rightarrow> [p]) = False"
    using assms(2) option_args by (auto split: option.splits)
  have tp: "\<not> isConfigArg (targetPath uri filePath0)" "\<not> isRulesArg (targetPath uri filePath0)"
    using assms(1) option_args by auto
  have ne: "list_ex ex ?files \<Longrightarrow> configFiles h (config cfg) \<noteq> []"
    by (auto simp: candidateFiles_def)
  show ?thesis
  proof (cases "find ex ?files")
    case None
    then have "\<not> list_ex ex ?files"
      by (simp add: find_None_iff list_ex_iff)
    with None ph tp show ?thesis
      by (simp add: getArgs_shape isConfigArg_def isRulesArg_def startsWith_def)
  next
    case (Some c)
    then have "list_ex ex ?files"
      using find_Some_ex [of ex ?files] by (auto simp: list_ex_iff)
    with Some ph tp ne show ?thesis
      by (simp add: getArgs_shape isConfigArg_def isRulesArg_def startsWith_def)
  qed
qed

theorem getArgs_config_or_rules_witness:
  "\<not> startsWith (targetPath exUri None) ''--''
   \<and> list_ex isConfigArg (fst (getArgs exHost (\<lambda>p. p = ''/w/b.php'') exConfig exUri None))
   \<and> \<not> list_ex isRulesArg (fst (getArgs exHost (\<lambda>p. p = ''/w/b.php'') exConfig exUri None))
   \<and> \<not> list_ex isConfigArg (fst (getArgs exHost (\<lambda>p. False) exConfig exUri None))
   \<and> list_ex isRulesArg (fst (getArgs exHost (\<lambda>p. False) exConfig exUri None))"
proof -
  have t: "\<not> startsWith (targetPath exUri None) ''--''"
    by (simp add: targetPath_def startsWith_def ex_defs)
  have p: "\<forall>p. pharPath exConfig = Some p \<longrightarrow> \<not> startsWith p ''--''"
    by (simp add: ex_defs)
  have f: "candidateFiles exHost (getActiveWorkspacePath exHost exUri) [''a.php'', ''b.php'']
           = [''/w/.vscode/a.php'', ''/w/a.php'', ''/w/.vscode/b.php'', ''/w/b.php'']"
    by (simp add: getArgs_eval ex_defs)
  have r: "rules exConfig \<noteq> []"
    by (simp add: ex_defs)
  have c: "configFiles exHost (config exConfig) = [''a.php'', ''b.php'']"
    by (simp add: configFiles_def ex_defs replaceHome_def startsWith_def)
  show ?thesis
    using getArgs_config_or_rules [OF t p, of exHost "\<lambda>p. p = ''/w/b.php''"]
          getArgs_config_or_rules [OF t p, of exHost "\<lambda>p. False"]
    by (simp add: t f r c)
qed

text \<open>
  C4: for a document in a workspace folder, \<^verbatim>\<open>getArgs\<close> probes the disk in this order:
  for each candidate in the order of the list, an absolute one as it is, a relative one
  under \<^verbatim>\<open>.vscode/\<close> of the workspace folder and then under the folder itself; the probes
  are the paths up to and including the first that exists.
\<close>

theorem getArgs_search_order:
  assumes "getActiveWorkspacePath h uri = Some rootPath"
  shows "snd (getArgs h ex cfg uri filePath0) =
     (let order = concat (map (\<lambda>file. if isAbsolute h file then [file]
                                       else [rootPath @ ''/.vscode/'' @ file, rootPath @ ''/'' @ file])
                              (configFiles h (config cfg)))
      in takeWhile (\<lambda>c. \<not> ex c) order @ take 1 (dropWhile (\<lambda>c. \<not> ex c) order))"
proof (cases "config cfg = []")
  case True
  then show ?thesis
    by (simp add: getArgs_def Let_def configFiles_def)
next
  case False
  have "candidateFiles h (Some rootPath) (configFiles h (config cfg)) =
        concat (map (\<lambda>file. if isAbsolute h file then [file]
                             else [rootPath @ ''/.vscode/'' @ file, rootPath @ ''/'' @ file])
                    (configFiles h (config cfg)))"
    by (simp add: candidateFiles_def searchPaths_def cong: if_cong)
  with False assms show ?thesis
    by (simp add: getArgs_def Let_def scanConfig_probed)
qed

theorem getArgs_search_order_witness:
  "getActiveWorkspacePath exHost exUri = Some ''/w''
   \<and> configFiles exHost (config exConfig) = [''a.php'', ''b.php'']
   \<and> snd (getArgs exHost (\<lambda>p. False) exConfig exUri None)
       = [''/w/.vscode/a.php'', ''/w/a.php'', ''/w/.vscode/b.php'', ''/w/b.php'']
   \<and> snd (getArgs exHost (\<lambda>p. p = ''/w/a.php'') exConfig exUri None)
       = [''/w/.vscode/a.php'', ''/w/a.php'']
   \<and> snd (getArgs exHost (\<lambda>p. False) (exConfig\<lparr>config := ''a.php;/etc/c.php;;~/d.php''\<rparr>) exUri None)
       = [''/w/.vscode/a.php'', ''/w/a.php'', ''/etc/c.php'', ''/home/u/d.php'']"
proof -
  have c2: "configFiles exHost ''a.php;/etc/c.php;;~/d.php''
            = [''a.php'', ''/etc/c.php'', ''/home/u/d.php'']"
    by (simp add: configFiles_def ex_defs replaceHome_def startsWith_def)
  have a2: "isAbsolute exHost ''/etc/c.php''" "isAbsolute exHost ''/home/u/d.php''"
    by (simp_all add: ex_defs startsWith_def)
  have r: "getActiveWorkspacePath exHost exUri = Some ''/w''"
    by (simp add: getActiveWorkspacePath_def ex_defs)
  have c: "configFiles exHost (config exConfig) = [''a.php'', ''b.php'']"
    by (simp add: configFiles_def ex_defs replaceHome_def startsWith_def)
  have a: "\<not> isAbsolute exHost ''a.php''" "\<not> isAbsolute exHost ''b.php''"
    by (simp_all add: ex_defs startsWith_def)
  show ?thesis
    using getArgs_search_order [OF r, of "\<lambda>p. False" exConfig None]
          getArgs_search_order [OF r, of "\<lambda>p. p = ''/w/a.php''" exConfig None]
          getArgs_search_order [OF r, of "\<lambda>p. False" "exConfig\<lparr>config := ''a.php;/etc/c.php;;~/d.php''\<rparr>" None]
    by (simp add: r c a c2 a2)
qed


section \<open>Properties of \<^verbatim>\<open>format\<close> and \<^verbatim>\<open>fix\<close>\<close>

text \<open>Once the process is started, \<^verbatim>\<open>format\<close> is the chain of handlers on its result.\<close>

lemma formatWith_started:
  assumes "formatEnter h cfg text uri isPartial w = (Inr (exe, args, cwd), w1)"
    and "runAsync h exe args cwd (disk w1) = (res, d)"
  shows "formatWith k h cfg text uri isDiff isPartial w =
         formatSettle k h text (scratchPath h uri isPartial) isDiff isPartial res
           (logEv [RunAsync exe args cwd] (w1\<lparr>disk := d\<rparr>))"
  using assms by (simp add: formatWith_def)

lemma format_started:
  assumes "formatEnter h cfg text uri isPartial w = (Inr (exe, args, cwd), w1)"
    and "runAsync h exe args cwd (disk w1) = (res, d)"
  shows "format h cfg text uri isDiff isPartial w =
         formatSettle (\<lambda>t v. v) h text (scratchPath h uri isPartial) isDiff isPartial res
           (logEv [RunAsync exe args cwd] (w1\<lparr>disk := d\<rparr>))"
  using assms by (simp add: format_def formatWith_def)

lemma formatEnter_flag: "isRunning (snd (formatEnter h cfg text uri isPartial w)) = True"
  by (simp add: formatEnter_def Let_def logEv_def split: option.splits sum.splits)

lemma formatEnter_trace:
  assumes "formatEnter h cfg text uri isPartial w = (Inr (exe, args, cwd), w1)"
  shows "trace w1 = trace w @ ClearOutput # (if isPartial then [] else [StatusInfo (Some ''formatting'')])
                      @ [WriteFile (scratchPath h uri isPartial) text, OutputArgs args]"
  using assms
  by (auto simp: formatEnter_def Let_def logEv_def split: option.splits sum.splits)

lemma formatSettle_flag: "isRunning (snd (formatSettle k h text fp isDiff isPartial res w)) = False"
  by (simp add: formatSettle_def formatFinally_def unlinkDone_def logEv_def Let_def
      split: prod.splits)

text \<open>
  When the process is started, the flag is false after the handlers have run, whatever
  the process did.
\<close>

lemma format_clears_flag:
  assumes "formatEnter h cfg text uri isPartial w = (Inr (exe, args, cwd), w1)"
    and "runAsync h exe args cwd (disk w1) = (res, d)"
  shows "isRunning (snd (format h cfg text uri isDiff isPartial w)) = False"
  by (simp add: format_started [OF assms] formatSettle_flag)

lemma fixFile_clears_flag:
  assumes "getRealExecutablePath h cfg uri = Inr resolved"
  shows "fst (fixFile h cfg uri w) = None \<and> isRunning (snd (fixFile h cfg uri w)) = False"
  using assms by (simp add: fixFile_def Let_def split: prod.splits)

text \<open>
  The handlers of \<^verbatim>\<open>then\<close> and \<^verbatim>\<open>catch\<close> leave the flag and the disk as they are. So when the
  promise of a call that is not a diff is fulfilled, the caller's handler runs with the
  flag still set and the disk as the process left it; the handler of \<^verbatim>\<open>finally\<close> and the
  completion of the deletion come after it.
\<close>

lemma formatChain_frame:
  "isRunning (snd (formatChain h text fp isDiff isPartial res w)) = isRunning w"
  "disk (snd (formatChain h text fp isDiff isPartial res w)) = disk w"
  by (simp_all add: formatChain_def formatThen_def formatCatch_def logEv_def Let_def
      split: runResult.splits prod.splits completion.splits option.splits sum.splits bool.splits)

lemma formatWith_handler_state:
  assumes "formatEnter h cfg text uri isPartial w = (Inr (exe, args, cwd), w1)"
    and "runAsync h exe args cwd (disk w1) = (res, d)"
    and "formatChain h text (scratchPath h uri isPartial) False isPartial res
           (logEv [RunAsync exe args cwd] (w1\<lparr>disk := d\<rparr>)) = (Resolves t, w2)"
  shows "snd (formatWith k h cfg text uri False isPartial w)
           = unlinkDone h (scratchPath h uri isPartial)
               (formatFinally False (scratchPath h uri isPartial) (k t w2))"
    and "isRunning w2 = True" and "disk w2 = d"
proof -
  show "snd (formatWith k h cfg text uri False isPartial w)
           = unlinkDone h (scratchPath h uri isPartial)
               (formatFinally False (scratchPath h uri isPartial) (k t w2))"
    by (simp add: formatWith_started [OF assms(1,2)] formatSettle_def assms(3) Let_def)
  have "isRunning w1 = True"
    using formatEnter_flag [of h cfg "text" uri isPartial w] assms(1) by simp
  then show "isRunning w2 = True"
    using formatChain_frame(1) [of h "text" "scratchPath h uri isPartial" False isPartial res
            "logEv [RunAsync exe args cwd] (w1\<lparr>disk := d\<rparr>)"] assms(3)
    by (simp add: logEv_def)
  show "disk w2 = d"
    using formatChain_frame(2) [of h "text" "scratchPath h uri isPartial" False isPartial res
            "logEv [RunAsync exe args cwd] (w1\<lparr>disk := d\<rparr>)"] assms(3)
    by (simp add: logEv_def)
qed

lemma filesChanged_manifest:
  assumes "map_of (rev kvs) ''files'' = Some (JArray fs)"
  shows "filesChanged h (JObject kvs) = Inr (fs \<noteq> [])"
  using assms by (simp add: filesChanged_def gtZero_def)

lemma statusCalls_append: "statusCalls (a @ b) = statusCalls a @ statusCalls b"
  by (simp add: statusCalls_def)

lemma statusCalls_simps:
  "statusCalls [] = []"
  "statusCalls (StatusInfo m # tr) = m # statusCalls tr"
  "statusCalls (ClearOutput # tr) = statusCalls tr"
  "statusCalls (Output s # tr) = statusCalls tr"
  "statusCalls (OutputArgs a # tr) = statusCalls tr"
  "statusCalls (OutputError r # tr) = statusCalls tr"
  "statusCalls (HideStatusBar # tr) = statusCalls tr"
  "statusCalls (WriteFile p t # tr) = statusCalls tr"
  "statusCalls (Unlink p # tr) = statusCalls tr"
  "statusCalls (RunAsync x a c # tr) = statusCalls tr"
  "statusCalls (ErrorTip # tr) = statusCalls tr"
  by (simp_all add: statusCalls_def)

subsection \<open>Evaluation on the concrete hosts\<close>

lemmas host_defs = exHost_def exHostFixing_def exHostWarning_def exHostFailing_def
  exHostReadOnly_def exHostJump_def exHostNoFolders_def exHostExcluding_def

lemmas enter_eval = formatEnter_def Let_def logEv_def scratchPath_def replaceDir_def isSep_def
  isLineTerminator_def LF_def CR_def getRealExecutablePath_def executableOf_def replaceWorkspace_def
  getArgs_def targetPath_def candidateFiles_def configFiles_def searchPaths_def
  getActiveWorkspacePath_def replaceHome_def startsWith_def

lemma exScratch:
  assumes "TmpDir h = ''/tmp''"
  shows "scratchPath h exUri False = ''/tmp/x.php''"
    and "scratchPath h exUri True = ''/tmp/php-cs-fixer-partial.php''"
  by (simp_all add: assms scratchPath_def replaceDir_def isSep_def isLineTerminator_def LF_def CR_def
      exUri_def)

lemma exEnter:
  assumes "TmpDir h = ''/tmp''" "homedir h = ''/home/u''" "isAbsolute h = (\<lambda>p. startsWith p ''/'')"
    "dirname h = (\<lambda>p. ''/w'')" "getWorkspaceFolder h = (\<lambda>u. Some ''/w'')"
    "workspaceFolders h = Some [''/w'']" "writeFileError h = (\<lambda>p. None)"
    and "disk w0 = Map.empty"
  shows "fst (formatEnter h exConfig text exUri False w0)
           = Inr (''php-cs-fixer'', exArgsFor ''/tmp/x.php'', Some ''/w'')"
    and "fst (formatEnter h exConfig text exUri True w0)
           = Inr (''php-cs-fixer'', exArgsFor ''/tmp/php-cs-fixer-partial.php'', Some ''/w'')"
    and "disk (snd (formatEnter h exConfig text exUri False w0)) = [''/tmp/x.php'' \<mapsto> text]"
    and "disk (snd (formatEnter h exConfig text exUri True w0)) = [''/tmp/php-cs-fixer-partial.php'' \<mapsto> text]"
    and "trace (snd (formatEnter h exConfig text exUri False w0))
           = trace w0 @ [ClearOutput, StatusInfo (Some ''formatting''), WriteFile ''/tmp/x.php'' text,
                         OutputArgs (exArgsFor ''/tmp/x.php'')]"
  by (simp_all add: assms enter_eval exConfig_def exUri_def exArgsFor_def)

text \<open>
  On a host that agrees with the example host on everything \<^verbatim>\<open>formatEnter\<close> reads,
  \<^verbatim>\<open>format\<close> of the example document is the chain of handlers on the result of the
  process for the scratch file.
\<close>

lemma exFormat:
  assumes "TmpDir h = ''/tmp''" "homedir h = ''/home/u''" "isAbsolute h = (\<lambda>p. startsWith p ''/'')"
    "dirname h = (\<lambda>p. ''/w'')" "getWorkspaceFolder h = (\<lambda>u. Some ''/w'')"
    "workspaceFolders h = Some [''/w'']" "writeFileError h = (\<lambda>p. None)"
    and "disk w0 = Map.empty"
    and "runAsync h ''php-cs-fixer'' (exArgsFor ''/tmp/x.php'') (Some ''/w'') [''/tmp/x.php'' \<mapsto> text] = (res, d)"
  shows "format h exConfig text exUri isDiff False w0 =
         formatSettle (\<lambda>t v. v) h text ''/tmp/x.php'' isDiff False res
           (logEv [RunAsync ''php-cs-fixer'' (exArgsFor ''/tmp/x.php'') (Some ''/w'')]
              ((snd (formatEnter h exConfig text exUri False w0))\<lparr>disk := d\<rparr>))"
proof -
  let ?e = "formatEnter h exConfig text exUri False w0"
  have E: "?e = (Inr (''php-cs-fixer'', exArgsFor ''/tmp/x.php'', Some ''/w''), snd ?e)"
    by (simp add: prod_eq_iff exEnter(1) [OF assms(1-8)])
  have R: "runAsync h ''php-cs-fixer'' (exArgsFor ''/tmp/x.php'') (Some ''/w'') (disk (snd ?e)) = (res, d)"
    by (simp add: exEnter(3) [OF assms(1-8)] assms(9))
  show ?thesis
    using format_started [OF E R, of isDiff] by (simp add: exScratch(1) [OF assms(1)])
qed


subsection \<open>A process that exits successfully\<close>

text \<open>
  C2: for a call that is not a diff, whose process was started and exited successfully
  with a manifest on stdout that lists the changed files: with at least one changed file
  the promise resolves with the content the scratch file has on disk; with none and more
  than one non-empty line on stderr it is rejected with \<^verbatim>\<open>new Error(stderr)\<close>, stderr goes
  to the output channel and, unless the call is partial, the status shows the second
  non-empty line, the first after the leading one; with none and at most one non-empty
  line it resolves with the text it was given.
\<close>

theorem format_success_cases:
  assumes "formatEnter h cfg text uri isPartial w = (Inr (exe, args, cwd), w1)"
    and "runAsync h exe args cwd (disk w1) = (Fulfilled out errText, d)"
    and "JSON_parse h out = Some (JObject kvs)"
    and "map_of (rev kvs) ''files'' = Some (JArray changedFiles)"
  shows "(changedFiles \<noteq> [] \<longrightarrow>
            (\<forall>content. d (scratchPath h uri isPartial) = Some content \<longrightarrow>
               fst (format h cfg text uri False isPartial w) = Resolves content))
       \<and> (changedFiles = [] \<and> length (nonEmptyLines errText) > 1 \<longrightarrow>
            fst (format h cfg text uri False isPartial w) = Rejects (Error errText)
            \<and> trace (snd (format h cfg text uri False isPartial w))
                = trace w1 @ [RunAsync exe args cwd, Output out, Output errText]
                  @ (if isPartial then [] else [StatusInfo (Some (nonEmptyLines errText ! 1))])
                  @ [Unlink (scratchPath h uri isPartial)])
       \<and> (changedFiles = [] \<and> length (nonEmptyLines errText) \<le> 1 \<longrightarrow>
            fst (format h cfg text uri False isPartial w) = Resolves text)"
  by (auto simp: format_started [OF assms(1,2)] formatSettle_def formatChain_def formatThen_def
      assms(3) filesChanged_manifest [OF assms(4)] formatFinally_def unlinkDone_def logEv_def Let_def)

theorem format_success_cases_witness:
  "fst (format (exHostFixing (''<?php'' @ [LF] @ ''$a = 1;'')) exConfig (''<?php'' @ [LF] @ ''$a=1;'')
         exUri False False exWorld) = Resolves (''<?php'' @ [LF] @ ''$a = 1;'')
   \<and> fst (format (exHostWarning (''Loaded config'' @ [LF] @ ''Cannot fix'')) exConfig ''<?php''
         exUri False False exWorld) = Rejects (Error (''Loaded config'' @ [LF] @ ''Cannot fix''))
   \<and> statusCalls (trace (snd (format (exHostWarning (''Loaded config'' @ [LF] @ ''Cannot fix''))
         exConfig ''<?php'' exUri False False exWorld))) = [Some ''formatting'', Some ''Cannot fix'']
   \<and> fst (format exHost exConfig ''<?php'' exUri False False exWorld) = Resolves ''<?php''"
proof -
  let ?fixed = "''<?php'' @ [LF] @ ''$a = 1;''"
  let ?text = "''<?php'' @ [LF] @ ''$a=1;''"
  let ?warn = "''Loaded config'' @ [LF] @ ''Cannot fix''"
  let ?e1 = "formatEnter (exHostFixing ?fixed) exConfig ?text exUri False exWorld"
  let ?e2 = "formatEnter (exHostWarning ?warn) exConfig ''<?php'' exUri False exWorld"
  let ?e3 = "formatEnter exHost exConfig ''<?php'' exUri False exWorld"
  have E1: "?e1 = (Inr (''php-cs-fixer'', exArgsFor ''/tmp/x.php'', Some ''/w''), snd ?e1)"
    by (simp add: prod_eq_iff exEnter host_defs exWorld_def)
  have E2: "?e2 = (Inr (''php-cs-fixer'', exArgsFor ''/tmp/x.php'', Some ''/w''), snd ?e2)"
    by (simp add: prod_eq_iff exEnter host_defs exWorld_def)
  have E3: "?e3 = (Inr (''php-cs-fixer'', exArgsFor ''/tmp/x.php'', Some ''/w''), snd ?e3)"
    by (simp add: prod_eq_iff exEnter host_defs exWorld_def)
  have R1: "runAsync (exHostFixing ?fixed) ''php-cs-fixer'' (exArgsFor ''/tmp/x.php'') (Some ''/w'') (disk (snd ?e1))
            = (Fulfilled ''{1}'' [], (disk (snd ?e1))(''/tmp/x.php'' \<mapsto> ?fixed))"
    by (simp add: host_defs exArgsFor_def)
  have R2: "runAsync (exHostWarning ?warn) ''php-cs-fixer'' (exArgsFor ''/tmp/x.php'') (Some ''/w'') (disk (snd ?e2))
            = (Fulfilled ''{}'' ?warn, disk (snd ?e2))"
    by (simp add: host_defs)
  have R3: "runAsync exHost ''php-cs-fixer'' (exArgsFor ''/tmp/x.php'') (Some ''/w'') (disk (snd ?e3))
            = (Fulfilled ''{}'' [], disk (snd ?e3))"
    by (simp add: host_defs)
  have P1: "JSON_parse (exHostFixing ?fixed) ''{1}'' = Some (JObject [(''files'', JArray [JObject []])])"
    by (simp add: host_defs)
  have P2: "JSON_parse (exHostWarning ?warn) ''{}'' = Some (JObject [(''files'', JArray [])])"
    by (simp add: host_defs)
  have P3: "JSON_parse exHost ''{}'' = Some (JObject [(''files'', JArray [])])"
    by (simp add: host_defs)
  have F1: "map_of (rev [(''files'', JArray [JObject []])]) ''files'' = Some (JArray [JObject []])"
    by simp
  have F0: "map_of (rev [(''files'', JArray [])]) ''files'' = Some (JArray [])"
    by simp
  have S: "scratchPath (exHostFixing ?fixed) exUri False = ''/tmp/x.php''"
    by (simp add: exScratch host_defs)
  have L: "nonEmptyLines ?warn = [''Loaded config'', ''Cannot fix'']" "nonEmptyLines [] = []"
    by (simp_all add: nonEmptyLines_def LF_def CR_def stripCR_def)
  have T: "trace (snd ?e2) = [ClearOutput, StatusInfo (Some ''formatting''), WriteFile ''/tmp/x.php'' ''<?php'',
                         OutputArgs (exArgsFor ''/tmp/x.php'')]"
    by (simp add: exEnter host_defs exWorld_def)
  show ?thesis
    using format_success_cases [OF E1 R1 P1 F1]
          format_success_cases [OF E2 R2 P2 F0]
          format_success_cases [OF E3 R3 P3 F0] S L T
    by (simp add: LF_def statusCalls_simps)
qed

subsection \<open>A process that fails\<close>

text \<open>
  What \<^verbatim>\<open>uncaughtAt\<close> and \<^verbatim>\<open>uncaughtMatch\<close> give has the form of the expression on line 197,
  is a part of the text, runs to the end of its line, and no earlier place matches.
\<close>

lemma startsWith_decompose: "startsWith s p \<Longrightarrow> length p = n \<Longrightarrow> s = p @ drop n s"
  by (metis append_take_drop_id startsWith_def)

lemma uncaughtAt_shape:
  assumes "uncaughtAt s = Some m"
  shows "\<exists>kind ws rest post.
           s = m @ post
         \<and> m = ''PHP '' @ kind @ '' error:'' @ ws @ ''Uncaught Error:'' @ rest
         \<and> (kind = ''Fatal'' \<or> kind = ''Parse'')
         \<and> (\<forall>c\<in>set ws. isSpace c)
         \<and> rest \<noteq> []
         \<and> (\<forall>c\<in>set rest. c \<noteq> CR \<and> c \<noteq> CHR ''?'' \<and> c \<noteq> LF)
         \<and> (post = [] \<or> hd post = CR \<or> hd post = CHR ''?'' \<or> hd post = LF)"
proof -
  let ?r = "dropWhile isSpace (drop 16 s)"
  let ?ws = "takeWhile isSpace (drop 16 s)"
  let ?ok = "\<lambda>c. c \<noteq> CR \<and> c \<noteq> CHR ''?'' \<and> c \<noteq> LF"
  let ?run = "takeWhile ?ok (drop 15 ?r)"
  let ?post = "dropWhile ?ok (drop 15 ?r)"
  from assms have k: "startsWith s ''PHP Fatal error:'' \<or> startsWith s ''PHP Parse error:''"
    and u: "startsWith ?r ''Uncaught Error:''" and ne: "?run \<noteq> []"
    and m: "m = take (length s - length ?r + 15 + length ?run) s"
    by (auto simp: uncaughtAt_def Let_def split: if_splits)
  have "\<exists>kind. (kind = ''Fatal'' \<or> kind = ''Parse'') \<and> s = (''PHP '' @ kind @ '' error:'') @ drop 16 s"
  proof (cases "startsWith s ''PHP Fatal error:''")
    case True
    have "s = (''PHP '' @ ''Fatal'' @ '' error:'') @ drop 16 s"
      using startsWith_decompose [OF True, of 16] by simp
    then show ?thesis by blast
  next
    case False
    with k have "startsWith s ''PHP Parse error:''" by simp
    then have "s = (''PHP '' @ ''Parse'' @ '' error:'') @ drop 16 s"
      using startsWith_decompose [of s "''PHP Parse error:''" 16] by simp
    then show ?thesis by blast
  qed
  then obtain kind where kd: "kind = ''Fatal'' \<or> kind = ''Parse''"
    and s1: "s = (''PHP '' @ kind @ '' error:'') @ drop 16 s"
    by blast
  have s2: "drop 16 s = ?ws @ ?r"
    by simp
  have s3: "?r = ''Uncaught Error:'' @ drop 15 ?r"
    using startsWith_decompose [OF u, of 15] by simp
  have s4: "drop 15 ?r = ?run @ ?post"
    by simp
  have whole: "s = (''PHP '' @ kind @ '' error:'' @ ?ws @ ''Uncaught Error:'' @ ?run) @ ?post"
    using s1 s2 s3 s4 by (metis append.assoc)
  have lk: "length kind = 5"
    using kd by auto
  have td: "length ?ws + length ?r = length s - 16"
    by (metis length_append length_drop takeWhile_dropWhile_id)
  have l16: "16 \<le> length s"
  proof -
    have "length s = length (''PHP '' @ kind @ '' error:'') + length (drop 16 s)"
      using s1 by (metis length_append)
    then show ?thesis by (simp add: lk)
  qed
  have ls: "length s = 16 + length ?ws + length ?r"
    using td l16 by simp
  have len: "length s - length ?r + 15 + length ?run
             = length (''PHP '' @ kind @ '' error:'' @ ?ws @ ''Uncaught Error:'' @ ?run)"
  proof -
    have e: "length (''PHP '' @ kind @ '' error:'' @ ?ws @ ''Uncaught Error:'' @ ?run)
             = 31 + length ?ws + length ?run"
      by (simp add: lk)
    show ?thesis
      unfolding e using ls by arith
  qed
  define X where "X = ''PHP '' @ kind @ '' error:'' @ ?ws @ ''Uncaught Error:'' @ ?run"
  have "take (length X) s = take (length X) (X @ ?post)"
    using whole unfolding X_def by (rule arg_cong)
  then have mm: "m = ''PHP '' @ kind @ '' error:'' @ ?ws @ ''Uncaught Error:'' @ ?run"
    unfolding m len X_def [symmetric] by simp
  have p: "?post = [] \<or> hd ?post = CR \<or> hd ?post = CHR ''?'' \<or> hd ?post = LF"
    using hd_dropWhile [of ?ok "drop 15 ?r"] by auto
  have w: "\<forall>c\<in>set ?ws. isSpace c"
    using set_takeWhileD [of _ isSpace "drop 16 s"] by blast
  have r: "\<forall>c\<in>set ?run. ?ok c"
    using set_takeWhileD [of _ ?ok "drop 15 ?r"] by blast
  have "s = m @ ?post"
    using whole unfolding mm .
  with mm kd w ne r p show ?thesis
    by blast
qed

lemma uncaughtMatch_leftmost:
  assumes "uncaughtMatch s = Some m"
  shows "\<exists>pre post. s = pre @ m @ post \<and> uncaughtAt (m @ post) = Some m
           \<and> (\<forall>i < length pre. uncaughtAt (drop i s) = None)"
  using assms
proof (induction s)
  case Nil
  then show ?case by simp
next
  case (Cons c cs)
  show ?case
  proof (cases "uncaughtAt (c # cs)")
    case (Some m')
    with Cons.prems have e: "m' = m" by simp
    obtain post where "c # cs = m @ post"
      using uncaughtAt_shape [OF Some] e by blast
    with Some e have "c # cs = [] @ m @ post \<and> uncaughtAt (m @ post) = Some m
        \<and> (\<forall>i < length ([]::string). uncaughtAt (drop i (c # cs)) = None)"
      by simp
    then show ?thesis by blast
  next
    case None
    with Cons.prems have "uncaughtMatch cs = Some m" by simp
    from Cons.IH [OF this] obtain pre post where
      p: "cs = pre @ m @ post" "uncaughtAt (m @ post) = Some m"
         "\<forall>i < length pre. uncaughtAt (drop i cs) = None"
      by blast
    have "\<forall>i < length (c # pre). uncaughtAt (drop i (c # cs)) = None"
    proof (intro allI impI)
      fix i assume "i < length (c # pre)"
      then show "uncaughtAt (drop i (c # cs)) = None"
        using None p(3) by (cases i) auto
    qed
    with p have "c # cs = (c # pre) @ m @ post \<and> uncaughtAt (m @ post) = Some m
        \<and> (\<forall>i < length (c # pre). uncaughtAt (drop i (c # cs)) = None)"
      by simp
    then show ?thesis by blast
  qed
qed

text \<open>
  C3, as the claim states it, fails: with exit code 255 and a stderr that contains
  \<^verbatim>\<open>Fatal error:\<close> but not \<^verbatim>\<open>Uncaught Error:\<close>, the status shows the generic message, not a
  part of stderr.
\<close>

theorem format_fatal_without_uncaught_counterexample:
  "''PHP Fatal error:  Allowed memory size exhausted''
     = ''PHP '' @ ''Fatal error:'' @ ''  Allowed memory size exhausted''
   \<and> statusCalls (trace (snd (format (exHostFailing 255 ''PHP Fatal error:  Allowed memory size exhausted'')
         exConfig ''<?php'' exUri False False exWorld)))
       = [Some ''formatting'', Some ''failed'', Some ''PHP Fatal error, click to show output.'']"
proof -
  let ?h = "exHostFailing 255 ''PHP Fatal error:  Allowed memory size exhausted''"
  have m: "uncaughtMatch ''PHP Fatal error:  Allowed memory size exhausted'' = None"
    by (simp add: uncaughtAt_def startsWith_def isSpace_def Let_def)
  have f: "format ?h exConfig ''<?php'' exUri False False exWorld =
        formatSettle (\<lambda>t v. v) ?h ''<?php'' ''/tmp/x.php'' False False
          (Failed \<lparr>code = None, exitCode = Some 255, stdout = Some ''out'',
                   stderr = Some ''PHP Fatal error:  Allowed memory size exhausted''\<rparr>)
          (logEv [RunAsync ''php-cs-fixer'' (exArgsFor ''/tmp/x.php'') (Some ''/w'')]
             ((snd (formatEnter ?h exConfig ''<?php'' exUri False exWorld))
                \<lparr>disk := [''/tmp/x.php'' \<mapsto> ''<?php'']\<rparr>))"
    by (rule exFormat) (simp_all add: host_defs exWorld_def)
  have t: "trace (snd (formatEnter ?h exConfig ''<?php'' exUri False exWorld))
           = [ClearOutput, StatusInfo (Some ''formatting''), WriteFile ''/tmp/x.php'' ''<?php'',
              OutputArgs (exArgsFor ''/tmp/x.php'')]"
    by (simp add: exEnter host_defs exWorld_def)
  show ?thesis
    by (simp add: f t m formatSettle_def formatChain_def formatCatch_def formatFinally_def unlinkDone_def logEv_def
        msgs_def statusCalls_simps Let_def del: uncaughtMatch.simps)
qed

text \<open>
  C3, amended: for a call that is not partial, whose process was started and failed with
  an error other than \<^verbatim>\<open>ENOENT\<close>, the promise is rejected with that error; with exit code
  16 the last status is the fixed text, whatever stdout and stderr hold; with exit code 255
  it is the first match of \<^verbatim>\<open>/PHP (?:Fatal|Parse) error:\s*Uncaught Error:[^\r?\n]+/\<close> in
  stderr, and the fixed generic message when stderr has no match or is not there.
\<close>

theorem format_failure_status:
  assumes "formatEnter h cfg text uri False w = (Inr (exe, args, cwd), w1)"
    and "runAsync h exe args cwd (disk w1) = (Failed e, d)"
    and "code e \<noteq> Some ''ENOENT''"
  shows "fst (format h cfg text uri isDiff False w) = Rejects (ProcessError e)
       \<and> (exitCode e = Some 16 \<longrightarrow>
            statusCalls (trace (snd (format h cfg text uri isDiff False w)))
              = statusCalls (trace w)
                @ [Some ''formatting'', Some ''failed'', Some ''Configuration error of the application.''])
       \<and> (exitCode e = Some 255 \<longrightarrow>
            statusCalls (trace (snd (format h cfg text uri isDiff False w)))
              = statusCalls (trace w)
                @ [Some ''formatting'', Some ''failed'',
                   Some (case stderr e of
                           None \<Rightarrow> ''PHP Fatal error, click to show output.''
                         | Some s \<Rightarrow> (case uncaughtMatch s of
                                        None \<Rightarrow> ''PHP Fatal error, click to show output.''
                                      | Some m \<Rightarrow> m))])"
  using assms(3)
  by (auto simp: format_started [OF assms(1,2)] formatEnter_trace [OF assms(1)] formatSettle_def
      formatChain_def formatCatch_def formatFinally_def unlinkDone_def logEv_def Let_def msgs_def
      statusCalls_append statusCalls_simps split: option.splits)

theorem format_failure_status_witness:
  "statusCalls (trace (snd (format (exHostFailing 16 ''PHP Fatal error: Uncaught Error: x'')
         exConfig ''<?php'' exUri False False exWorld)))
     = [Some ''formatting'', Some ''failed'', Some ''Configuration error of the application.'']
   \<and> statusCalls (trace (snd (format
         (exHostFailing 255 (''Oops'' @ [LF] @ ''PHP Parse error:  Uncaught Error: no f() in x.php:3'' @ [LF] @ ''#0''))
         exConfig ''<?php'' exUri False False exWorld)))
     = [Some ''formatting'', Some ''failed'', Some ''PHP Parse error:  Uncaught Error: no f() in x.php:3'']"
proof -
  let ?s1 = "''PHP Fatal error: Uncaught Error: x''"
  let ?s2 = "''Oops'' @ [LF] @ ''PHP Parse error:  Uncaught Error: no f() in x.php:3'' @ [LF] @ ''#0''"
  let ?e1 = "formatEnter (exHostFailing 16 ?s1) exConfig ''<?php'' exUri False exWorld"
  let ?e2 = "formatEnter (exHostFailing 255 ?s2) exConfig ''<?php'' exUri False exWorld"
  let ?err1 = "\<lparr>code = None, exitCode = Some 16, stdout = Some ''out'', stderr = Some ?s1\<rparr>"
  let ?err2 = "\<lparr>code = None, exitCode = Some 255, stdout = Some ''out'', stderr = Some ?s2\<rparr>"
  have E1: "?e1 = (Inr (''php-cs-fixer'', exArgsFor ''/tmp/x.php'', Some ''/w''), snd ?e1)"
    by (simp add: prod_eq_iff exEnter host_defs exWorld_def)
  have E2: "?e2 = (Inr (''php-cs-fixer'', exArgsFor ''/tmp/x.php'', Some ''/w''), snd ?e2)"
    by (simp add: prod_eq_iff exEnter host_defs exWorld_def)
  have R1: "runAsync (exHostFailing 16 ?s1) ''php-cs-fixer'' (exArgsFor ''/tmp/x.php'') (Some ''/w'') (disk (snd ?e1))
            = (Failed ?err1, disk (snd ?e1))"
    by (simp add: host_defs)
  have R2: "runAsync (exHostFailing 255 ?s2) ''php-cs-fixer'' (exArgsFor ''/tmp/x.php'') (Some ''/w'') (disk (snd ?e2))
            = (Failed ?err2, disk (snd ?e2))"
    by (simp add: host_defs)
  have C1: "code ?err1 \<noteq> Some ''ENOENT''" and C2: "code ?err2 \<noteq> Some ''ENOENT''"
    by simp_all
  have m: "uncaughtMatch ?s2 = Some ''PHP Parse error:  Uncaught Error: no f() in x.php:3''"
    by (simp add: uncaughtAt_def startsWith_def isSpace_def Let_def LF_def CR_def)
  have t: "trace exWorld = []"
    by (simp add: exWorld_def)
  show ?thesis
    using format_failure_status [OF E1 R1 C1, of False] format_failure_status [OF E2 R2 C2, of False] m t
    by (simp add: statusCalls_simps LF_def del: uncaughtMatch.simps)
qed


subsection \<open>The scratch file\<close>

text \<open>
  When the process of a call was started, then for a call that is not a diff the last
  call the handlers make is \<^verbatim>\<open>fs.unlink\<close> of the scratch file, whatever the process did;
  when the deletion has completed the file is no longer on disk, and when it fails the
  disk stays as the process left it (the promise is settled before, so an error of the
  deletion changes no result). For a diff the scratch file is not unlinked and the disk
  stays as the process left it; the path of the scratch file is the result when the
  process exits successfully, and the promise is rejected with the error of the process
  when it fails.
\<close>

lemma format_started_unlinks:
  assumes "formatEnter h cfg text uri isPartial w = (Inr (exe, args, cwd), w1)"
    and "runAsync h exe args cwd (disk w1) = (res, d)"
  shows "(\<not> isDiff \<longrightarrow>
            last (trace (snd (format h cfg text uri isDiff isPartial w))) = Unlink (scratchPath h uri isPartial)
            \<and> (\<not> unlinkFails h (scratchPath h uri isPartial) \<longrightarrow>
                 disk (snd (format h cfg text uri isDiff isPartial w)) (scratchPath h uri isPartial) = None)
            \<and> (unlinkFails h (scratchPath h uri isPartial) \<longrightarrow>
                 disk (snd (format h cfg text uri isDiff isPartial w)) = d))
       \<and> (isDiff \<longrightarrow>
            disk (snd (format h cfg text uri isDiff isPartial w)) = d
            \<and> Unlink (scratchPath h uri isPartial)
                \<notin> set (drop (length (trace w)) (trace (snd (format h cfg text uri isDiff isPartial w))))
            \<and> (\<forall>out errText. res = Fulfilled out errText \<longrightarrow>
                  fst (format h cfg text uri isDiff isPartial w) = Resolves (scratchPath h uri isPartial))
            \<and> (\<forall>e. res = Failed e \<longrightarrow>
                  fst (format h cfg text uri isDiff isPartial w) = Rejects (ProcessError e)))"
proof -
  let ?p = "scratchPath h uri isPartial"
  let ?w = "logEv [RunAsync exe args cwd] (w1\<lparr>disk := d\<rparr>)"
  have nd: "last (trace (snd (formatSettle (\<lambda>t v. v) h text ?p False isPartial res ?w))) = Unlink ?p"
    "\<not> unlinkFails h ?p \<Longrightarrow> disk (snd (formatSettle (\<lambda>t v. v) h text ?p False isPartial res ?w)) ?p = None"
    "unlinkFails h ?p \<Longrightarrow> disk (snd (formatSettle (\<lambda>t v. v) h text ?p False isPartial res ?w)) = d"
    by (simp_all add: formatSettle_def formatChain_def formatThen_def formatCatch_def formatFinally_def
        unlinkDone_def logEv_def Let_def split: prod.splits runResult.splits completion.splits
        option.splits sum.splits bool.splits)
  have tr: "drop (length (trace w)) (trace ?w) =
              ClearOutput # (if isPartial then [] else [StatusInfo (Some ''formatting'')])
              @ [WriteFile ?p text, OutputArgs args, RunAsync exe args cwd]"
    by (simp add: logEv_def formatEnter_trace [OF assms(1)])
  have df: "disk (snd (formatSettle (\<lambda>t v. v) h text ?p True isPartial res ?w)) = d"
    "res = Fulfilled out errText \<Longrightarrow>
       fst (formatSettle (\<lambda>t v. v) h text ?p True isPartial res ?w) = Resolves ?p"
    "res = Failed e \<Longrightarrow>
       fst (formatSettle (\<lambda>t v. v) h text ?p True isPartial res ?w) = Rejects (ProcessError e)"
    for out errText e
    by (simp_all add: formatSettle_def formatChain_def formatThen_def formatCatch_def formatFinally_def
        logEv_def Let_def split: prod.splits runResult.splits)
  have du: "Unlink ?p \<notin> set (drop (length (trace w))
              (trace (snd (formatSettle (\<lambda>t v. v) h text ?p True isPartial res ?w))))"
    using tr
    by (cases res)
       (auto simp: formatSettle_def formatChain_def formatThen_def formatCatch_def formatFinally_def
        logEv_def Let_def formatEnter_trace [OF assms(1)] split: option.splits if_splits)
  show ?thesis
    using nd df du by (cases isDiff) (simp_all add: format_started [OF assms])
qed

text \<open>
  C7 on the code: \<^verbatim>\<open>fs.unlink\<close> is called in the handler of \<^verbatim>\<open>finally\<close> only, and that handler
  hangs on the promise of the process. When the workspace has no folder, the scratch file
  is written on line 152 and then line 74 throws inside the executor, before the process
  is started: the promise of \<^verbatim>\<open>format\<close> is rejected with a \<^verbatim>\<open>TypeError\<close>, no handler runs,
  \<^verbatim>\<open>fs.unlink\<close> is never called, and the scratch file of this call that is not a diff, which
  was not on disk before, stays on disk with the text of the call.
\<close>

theorem format_scratch_file_left:
  "scratchPath exHostNoFolders exUri False = ''/tmp/x.php''
   \<and> disk exWorld ''/tmp/x.php'' = None
   \<and> fst (format exHostNoFolders exConfig ''<?php'' exUri False False exWorld) = Rejects TypeError
   \<and> disk (snd (format exHostNoFolders exConfig ''<?php'' exUri False False exWorld)) ''/tmp/x.php''
       = Some ''<?php''
   \<and> trace (snd (format exHostNoFolders exConfig ''<?php'' exUri False False exWorld))
       = [ClearOutput, StatusInfo (Some ''formatting''), WriteFile ''/tmp/x.php'' ''<?php'',
          OutputArgs (exArgsFor ''/tmp/x.php'')]"
  by (simp add: format_def formatWith_def enter_eval host_defs exConfig_def exUri_def exWorld_def
      exArgsFor_def)

subsection \<open>The running flag\<close>

text \<open>
  C9 on the code: \<^verbatim>\<open>format\<close> sets the flag on line 141 and clears it in the handler of
  \<^verbatim>\<open>finally\<close> only. When \<^verbatim>\<open>fs.writeFileSync\<close> throws on line 152 (here the scratch path of an
  untitled document, \<^verbatim>\<open>/tmpUntitled-1\<close>, which cannot be written), the call throws and the
  flag stays set. When the workspace has no folder, line 74 throws inside the executor:
  the promise of \<^verbatim>\<open>format\<close> is rejected with a \<^verbatim>\<open>TypeError\<close>, no handler runs, the flag
  stays set and the scratch file stays on disk; \<^verbatim>\<open>fix\<close> throws with the flag set.
\<close>

theorem format_flag_left_set:
  "isRunning exWorld = False
   \<and> scratchPath exHostReadOnly exUntitled False = ''/tmpUntitled-1''
   \<and> fst (format exHostReadOnly exConfig ''<?php'' exUntitled False False exWorld) = Throws (FsError ''EACCES'')
   \<and> isRunning (snd (format exHostReadOnly exConfig ''<?php'' exUntitled False False exWorld)) = True
   \<and> fst (format exHostNoFolders exConfig ''<?php'' exUri False False exWorld) = Rejects TypeError
   \<and> isRunning (snd (format exHostNoFolders exConfig ''<?php'' exUri False False exWorld)) = True
   \<and> disk (snd (format exHostNoFolders exConfig ''<?php'' exUri False False exWorld)) ''/tmp/x.php''
       = Some ''<?php''
   \<and> fst (fixFile exHostNoFolders exConfig exUri exWorld) = Some TypeError
   \<and> isRunning (snd (fixFile exHostNoFolders exConfig exUri exWorld)) = True"
  by (simp add: format_def formatWith_def fixFile_def enter_eval host_defs exConfig_def exUri_def exUntitled_def
      exWorld_def)


section \<open>Properties of the configuration resolver\<close>

lemma stripInterpreter_prefix:
  assumes "CHR '' '' \<notin> set v"
  shows "stripInterpreter (''php'' @ v @ '' '' @ archive) = archive"
proof -
  have "dropWhile (\<lambda>c. c \<noteq> CHR '' '') (v @ CHR '' '' # archive) = CHR '' '' # archive"
    using assms by (induction v) auto
  then show ?thesis
    by (simp add: stripInterpreter_def)
qed

lemma exResolved: "resolveExecutablePath exHost exSettings = ''php7 /opt/fixer.phar''"
  by (simp add: resolveExecutablePath_def exSettings_def exHost_def getOr_def Let_def
      replaceFirst_def replaceHome_def startsWith_def)

text \<open>
  C6, as the claim states it, fails: for the executable path \<^verbatim>\<open>php7 /opt/fixer.phar\<close> the
  archive path is what follows the interpreter command, but the active executable is
  \<^verbatim>\<open>php\<close>, the default of the setting \<^verbatim>\<open>php.validate.executablePath\<close>, not the command
  \<^verbatim>\<open>php7\<close> before the archive path.
\<close>

theorem loadSettings_interpreter_counterexample:
  "resolveExecutablePath exHost exSettings = ''php7 /opt/fixer.phar''
   \<and> endsWith (resolveExecutablePath exHost exSettings) ''.phar''
   \<and> pharPath (loadSettings exHost exSettings) = Some ''/opt/fixer.phar''
   \<and> executablePath (loadSettings exHost exSettings) = ''php''
   \<and> executablePath (loadSettings exHost exSettings) \<noteq> ''php7''"
proof -
  have i: "interpreter exSettings = ''php''"
    by (simp add: interpreter_def exSettings_def)
  show ?thesis
    by (simp add: exResolved i loadSettings_def Let_def endsWith_def stripInterpreter_def)
qed

text \<open>
  C6, amended: if the resolved executable path ends in \<^verbatim>\<open>.phar\<close>, the archive path is that
  path without a leading \<^verbatim>\<open>php\<close> (in either case), the characters up to the next space and
  that space, and the active executable is the setting \<^verbatim>\<open>php.validate.executablePath\<close>, or
  \<^verbatim>\<open>php\<close> when the setting is undefined, null or empty; the argument list then starts with
  the archive path. Otherwise the archive path is null, the active executable is the
  resolved path and the argument list starts with \<^verbatim>\<open>fix\<close>.
\<close>

theorem loadSettings_archive:
  "(endsWith (resolveExecutablePath h st) ''.phar'' \<longrightarrow>
      pharPath (loadSettings h st) = Some (stripInterpreter (resolveExecutablePath h st))
      \<and> executablePath (loadSettings h st)
          = (case get_phpValidateExecutablePath st of
               Defined p \<Rightarrow> if p = [] then ''php'' else p
             | _ \<Rightarrow> ''php'')
      \<and> (\<forall>v archive. resolveExecutablePath h st = ''php'' @ v @ '' '' @ archive \<and> CHR '' '' \<notin> set v
            \<longrightarrow> pharPath (loadSettings h st) = Some archive)
      \<and> take 2 (fst (getArgs h ex (loadSettings h st) uri filePath0))
          = [stripInterpreter (resolveExecutablePath h st), ''fix''])
   \<and> (\<not> endsWith (resolveExecutablePath h st) ''.phar'' \<longrightarrow>
      pharPath (loadSettings h st) = None
      \<and> executablePath (loadSettings h st) = resolveExecutablePath h st
      \<and> take 1 (fst (getArgs h ex (loadSettings h st) uri filePath0)) = [''fix''])"
proof -
  have p: "endsWith (resolveExecutablePath h st) ''.phar'' \<Longrightarrow>
           pharPath (loadSettings h st) = Some (stripInterpreter (resolveExecutablePath h st))"
    by (simp add: loadSettings_def Let_def)
  have n: "\<not> endsWith (resolveExecutablePath h st) ''.phar'' \<Longrightarrow> pharPath (loadSettings h st) = None"
    by (simp add: loadSettings_def Let_def)
  have e: "executablePath (loadSettings h st) =
           (if endsWith (resolveExecutablePath h st) ''.phar'' then interpreter st
            else resolveExecutablePath h st)"
    by (simp add: loadSettings_def Let_def)
  have i: "interpreter st = (case get_phpValidateExecutablePath st of
               Defined p \<Rightarrow> if p = [] then ''php'' else p
             | _ \<Rightarrow> ''php'')"
    by (simp add: interpreter_def split: nullable.splits)
  show ?thesis
    using stripInterpreter_prefix
    by (auto simp: p n e i getArgs_shape simp del: append.simps)
qed

theorem loadSettings_archive_witness:
  "endsWith (resolveExecutablePath exHost exSettings) ''.phar''
   \<and> pharPath (loadSettings exHost exSettings) = Some ''/opt/fixer.phar''
   \<and> executablePath (loadSettings exHost exSettings) = ''php''
   \<and> take 2 (fst (getArgs exHost (\<lambda>p. False) (loadSettings exHost exSettings) exUri None))
       = [''/opt/fixer.phar'', ''fix'']
   \<and> \<not> endsWith (resolveExecutablePath exHost (exSettings\<lparr>get_executablePath := None\<rparr>)) ''.phar''
   \<and> pharPath (loadSettings exHost (exSettings\<lparr>get_executablePath := None\<rparr>)) = None
   \<and> executablePath (loadSettings exHost (exSettings\<lparr>get_executablePath := None\<rparr>)) = ''php-cs-fixer''"
proof -
  have r2: "resolveExecutablePath exHost (exSettings\<lparr>get_executablePath := None\<rparr>) = ''php-cs-fixer''"
    by (simp add: resolveExecutablePath_def exSettings_def exHost_def getOr_def Let_def
        replaceFirst_def replaceHome_def startsWith_def)
  have e: "endsWith ''php7 /opt/fixer.phar'' ''.phar''" "\<not> endsWith ''php-cs-fixer'' ''.phar''"
    by (simp_all add: endsWith_def)
  have s: "stripInterpreter ''php7 /opt/fixer.phar'' = ''/opt/fixer.phar''"
    by (simp add: stripInterpreter_def)
  have v: "get_phpValidateExecutablePath exSettings = Undefined"
    by (simp add: exSettings_def)
  show ?thesis
    using loadSettings_archive [of exHost exSettings "\<lambda>p. False" exUri None]
          loadSettings_archive [of exHost "exSettings\<lparr>get_executablePath := None\<rparr>" "\<lambda>p. False" exUri None]
          e s v
    by (simp add: exResolved r2)
qed

section \<open>Properties of the incremental triggers\<close>

lemma cursorUndo_jump:
  assumes "selectionStart (jump h w) \<noteq> selectionStart w"
  shows "cursorUndo (jump h w) =
         w\<lparr>trace := trace w @ [ExecuteCommand ''editor.action.jumpToBracket'', ExecuteCommand ''cursorUndo'']\<rparr>"
  using assms by (auto simp: cursorUndo_def jump_def logEv_def Let_def split: if_splits)

text \<open>
  C5: when the trigger fires (the inserted text is a closing brace after optional white
  space) and the jump lands at another offset, but less than 3 offsets before the
  original position or not in front of \<^verbatim>\<open>{\<close>, the state afterwards is the state before
  with only the two commands \<^verbatim>\<open>editor.action.jumpToBracket\<close> and \<^verbatim>\<open>cursorUndo\<close> added to the
  calls: the document, the disk and the flag are as before and the cursor is back at
  its position; nothing is formatted or edited. When the offsets are equal the trigger
  stops after the jump: no edit, no file, no process.
\<close>

theorem doAutoFixByBracket_guard:
  assumes "changes = pressedKey # others" and "isClosingBrace pressedKey"
  shows "(offsetAt (jump h w) (selectionStart w) \<noteq> offsetAt (jump h w) (selectionStart (jump h w))
          \<and> (int (offsetAt (jump h w) (selectionStart w))
                - int (offsetAt (jump h w) (selectionStart (jump h w))) < 3
              \<or> getText (jump h w) (selectionStart (jump h w),
                     (fst (selectionStart (jump h w)), snd (selectionStart (jump h w)) + 1)) \<noteq> ''{'')
          \<longrightarrow> doAutoFixByBracket h cfg changes w
                = w\<lparr>trace := trace w @ [ExecuteCommand ''editor.action.jumpToBracket'',
                                         ExecuteCommand ''cursorUndo'']\<rparr>)
       \<and> (offsetAt (jump h w) (selectionStart w) = offsetAt (jump h w) (selectionStart (jump h w))
          \<longrightarrow> doAutoFixByBracket h cfg changes w = jump h w
              \<and> docLines (jump h w) = docLines w \<and> disk (jump h w) = disk w
              \<and> trace (jump h w) = trace w @ [ExecuteCommand ''editor.action.jumpToBracket''])"
proof -
  have moved: "offsetAt (jump h w) (selectionStart w) \<noteq> offsetAt (jump h w) (selectionStart (jump h w))
               \<Longrightarrow> selectionStart (jump h w) \<noteq> selectionStart w"
    by auto
  have frame: "docLines (jump h w) = docLines w" "disk (jump h w) = disk w"
    "trace (jump h w) = trace w @ [ExecuteCommand ''editor.action.jumpToBracket'']"
    by (simp_all add: jump_def logEv_def Let_def)
  show ?thesis
    using assms moved cursorUndo_jump [of h w] frame
    by (auto simp: doAutoFixByBracket_def Let_def)
qed

theorem doAutoFixByBracket_guard_witness:
  "isClosingBrace ''}''
   \<and> doAutoFixByBracket (exHostJump (3, 0)) exConfig [''}''] exTyped
       = exTyped\<lparr>trace := [ExecuteCommand ''editor.action.jumpToBracket'', ExecuteCommand ''cursorUndo'']\<rparr>
   \<and> doAutoFixByBracket (exHostJump (1, 0)) exConfig [''}''] exTyped
       = exTyped\<lparr>trace := [ExecuteCommand ''editor.action.jumpToBracket'', ExecuteCommand ''cursorUndo'']\<rparr>
   \<and> doAutoFixByBracket exHost exConfig [''}''] exTyped
       = exTyped\<lparr>trace := [ExecuteCommand ''editor.action.jumpToBracket'']\<rparr>"
proof -
  have k: "isClosingBrace ''}''"
    by (simp add: isClosingBrace_def isSpace_def)
  have c: "[''}''] = ''}'' # []"
    by simp
  have j: "jump (exHostJump (3, 0)) exTyped
             = exTyped\<lparr>selectionStart := (3, 0), cursorStack := [(3, 1)],
                       trace := [ExecuteCommand ''editor.action.jumpToBracket'']\<rparr>"
    "jump (exHostJump (1, 0)) exTyped
             = exTyped\<lparr>selectionStart := (1, 0), cursorStack := [(3, 1)],
                       trace := [ExecuteCommand ''editor.action.jumpToBracket'']\<rparr>"
    "jump exHost exTyped = exTyped\<lparr>trace := [ExecuteCommand ''editor.action.jumpToBracket'']\<rparr>"
    by (simp_all add: jump_def logEv_def Let_def exTyped_def exWorld_def exHostJump_def exHost_def)
  have o: "offsetAt (exTyped\<lparr>selectionStart := (3, 0), cursorStack := [(3, 1)],
                       trace := [ExecuteCommand ''editor.action.jumpToBracket'']\<rparr>) (3, 1) = 23"
    "offsetAt (exTyped\<lparr>selectionStart := (3, 0), cursorStack := [(3, 1)],
                       trace := [ExecuteCommand ''editor.action.jumpToBracket'']\<rparr>) (3, 0) = 22"
    "offsetAt (exTyped\<lparr>selectionStart := (1, 0), cursorStack := [(3, 1)],
                       trace := [ExecuteCommand ''editor.action.jumpToBracket'']\<rparr>) (3, 1) = 23"
    "offsetAt (exTyped\<lparr>selectionStart := (1, 0), cursorStack := [(3, 1)],
                       trace := [ExecuteCommand ''editor.action.jumpToBracket'']\<rparr>) (1, 0) = 6"
    by (simp_all add: offsetAt_def validatePosition_def exTyped_def exWorld_def)
  have g: "getText (exTyped\<lparr>selectionStart := (1, 0), cursorStack := [(3, 1)],
                       trace := [ExecuteCommand ''editor.action.jumpToBracket'']\<rparr>) ((1, 0), (1, 1)) = ''$''"
    by (simp add: getText_def normRange_def validatePosition_def exTyped_def exWorld_def)
  have s: "selectionStart exTyped = (3, 1)" "trace exTyped = []"
    by (simp_all add: exTyped_def exWorld_def)
  show ?thesis
    using doAutoFixByBracket_guard [OF c k, of "exHostJump (3, 0)" exTyped exConfig]
          doAutoFixByBracket_guard [OF c k, of "exHostJump (1, 0)" exTyped exConfig]
          doAutoFixByBracket_guard [OF c k, of exHost exTyped exConfig]
          k j o g s
    by simp
qed


lemma formatThen_trace:
  "\<exists>rest. trace (snd (formatThen h text fp isDiff isPartial out errText w)) = trace w @ rest"
  by (simp add: formatThen_def logEv_def Let_def split: option.splits sum.splits bool.splits)

lemma formatCatch_trace: "\<exists>rest. trace (snd (formatCatch isPartial e w)) = trace w @ rest"
  by (simp add: formatCatch_def logEv_def)

lemma formatChain_trace:
  "\<exists>rest. trace (snd (formatChain h text fp isDiff isPartial res w)) = trace w @ rest"
proof (cases res)
  case (Fulfilled out errText)
  obtain c w1 where t: "formatThen h text fp isDiff isPartial out errText w = (c, w1)"
    by (cases "formatThen h text fp isDiff isPartial out errText w") auto
  obtain r1 where r1: "trace w1 = trace w @ r1"
    using formatThen_trace [of h "text" fp isDiff isPartial out errText w] t by auto
  show ?thesis
  proof (cases c)
    case (Throws e)
    obtain r2 where "trace (snd (formatCatch isPartial e w1)) = trace w1 @ r2"
      using formatCatch_trace by blast
    with Fulfilled t Throws r1 show ?thesis by (simp add: formatChain_def)
  qed (use Fulfilled t r1 in \<open>simp_all add: formatChain_def\<close>)
next
  case (Failed e)
  then show ?thesis using formatCatch_trace by (simp add: formatChain_def)
qed

lemma formatFinally_trace: "\<exists>rest. trace (formatFinally isDiff fp w) = trace w @ rest"
  by (simp add: formatFinally_def logEv_def Let_def)

lemma unlinkDone_trace: "trace (unlinkDone h p w) = trace w"
  by (simp add: unlinkDone_def)

text \<open>
  With a handler of the caller that only adds to the calls made, every call of \<^verbatim>\<open>format\<close>
  starts by writing the text it was given to the scratch file.
\<close>

lemma formatSettle_trace:
  assumes "\<And>t v. \<exists>rest. trace (k t v) = trace v @ rest"
  shows "\<exists>rest. trace (snd (formatSettle k h text fp isDiff isPartial res w)) = trace w @ rest"
proof -
  obtain c w1 where ch: "formatChain h text fp isDiff isPartial res w = (c, w1)"
    by (cases "formatChain h text fp isDiff isPartial res w") auto
  obtain r1 where r1: "trace w1 = trace w @ r1"
    using formatChain_trace [of h "text" fp isDiff isPartial res w] ch by auto
  define w2 where "w2 = (case c of Resolves t \<Rightarrow> k t w1 | _ \<Rightarrow> w1)"
  have "\<exists>rest. trace w2 = trace w1 @ rest"
    using assms by (cases c) (simp_all add: w2_def)
  then obtain r2 where r2: "trace w2 = trace w1 @ r2" by blast
  obtain r3 where r3: "trace (formatFinally isDiff fp w2) = trace w2 @ r3"
    using formatFinally_trace by blast
  have "snd (formatSettle k h text fp isDiff isPartial res w)
          = (if isDiff then formatFinally isDiff fp w2
             else unlinkDone h fp (formatFinally isDiff fp w2))"
    by (simp add: formatSettle_def ch w2_def Let_def)
  then show ?thesis
    using r1 r2 r3 by (cases isDiff) (simp_all add: unlinkDone_trace)
qed

lemma formatWith_trace_prefix:
  assumes "\<And>t v. \<exists>rest. trace (k t v) = trace v @ rest"
  shows "\<exists>rest. trace (snd (formatWith k h cfg text uri isDiff isPartial w))
     = trace w @ ClearOutput # (if isPartial then [] else [StatusInfo (Some ''formatting'')])
       @ [WriteFile (scratchPath h uri isPartial) text] @ rest"
proof (cases "formatEnter h cfg text uri isPartial w")
  case (Pair r w1)
  have t: "\<exists>rest. trace w1 = trace w @ ClearOutput # (if isPartial then [] else [StatusInfo (Some ''formatting'')])
       @ [WriteFile (scratchPath h uri isPartial) text] @ rest"
    using Pair by (auto simp: formatEnter_def Let_def logEv_def split: option.splits sum.splits)
  show ?thesis
  proof (cases r)
    case (Inl c)
    with Pair t show ?thesis by (simp add: formatWith_def)
  next
    case (Inr x)
    obtain exe args cwd where x: "x = (exe, args, cwd)" by (cases x) auto
    obtain res d where rd: "runAsync h exe args cwd (disk w1) = (res, d)"
      by (cases "runAsync h exe args cwd (disk w1)") auto
    obtain rest1 where r1: "trace w1 = trace w @ ClearOutput # (if isPartial then [] else [StatusInfo (Some ''formatting'')])
       @ [WriteFile (scratchPath h uri isPartial) text] @ rest1"
      using t by blast
    obtain rest2 where r2: "trace (snd (formatSettle k h text (scratchPath h uri isPartial) isDiff isPartial res
                 (logEv [RunAsync exe args cwd] (w1\<lparr>disk := d\<rparr>))))
               = trace (logEv [RunAsync exe args cwd] (w1\<lparr>disk := d\<rparr>)) @ rest2"
      using formatSettle_trace [of k, OF assms] by blast
    show ?thesis
      using Pair Inr x rd r1 r2 by (simp add: formatWith_def logEv_def)
  qed
qed


lemma editRequested_trace: "\<exists>rest. trace (editRequested deal original r t w) = trace w @ rest"
  by (simp add: editRequested_def logEv_def)

lemma replaceRange_trace:
  "trace (replaceRange r t w) = trace w @ [ExecuteCommand ''cancelSelection'']"
  by (simp add: replaceRange_def logEv_def split: prod.splits)

text \<open>
  The completion of \<^verbatim>\<open>fs.unlink\<close> and the edit the editor applies can come in either order.
\<close>

lemma unlinkDone_replaceRange:
  "unlinkDone h p (replaceRange r t w) = replaceRange r t (unlinkDone h p w)"
  by (simp add: unlinkDone_def replaceRange_def logEv_def split: prod.splits)

lemma unlinkDone_editApplied:
  "unlinkDone h p (editApplied deal original r t w) = editApplied deal original r t (unlinkDone h p w)"
  by (simp add: editApplied_def unlinkDone_replaceRange)

text \<open>
  C8: with the cursor on a line of the document, the trigger returns with the state
  unchanged (no file written, no process, no edit) when there is no change, when the
  text of the first change is not \<^verbatim>\<open>;\<close>, or when the line of the cursor has fewer than 5
  characters; when the text is \<^verbatim>\<open>;\<close> and the line has at least 5 characters it calls
  \<^verbatim>\<open>format\<close> in partial mode, which first writes the prologue and the line to the scratch
  file for partial code.
\<close>

theorem doAutoFixBySemicolon_trigger:
  assumes "fst (selectionStart w) < length (docLines w)"
  shows "(changes = [] \<or> hd changes \<noteq> '';'' \<or> length (docLines w ! fst (selectionStart w)) < 5
            \<longrightarrow> doAutoFixBySemicolon h cfg changes w = (None, w))
       \<and> (changes \<noteq> [] \<and> hd changes = '';'' \<and> length (docLines w ! fst (selectionStart w)) \<ge> 5
            \<longrightarrow> take (length (trace w) + 2) (trace (snd (doAutoFixBySemicolon h cfg changes w)))
                  = trace w @ [ClearOutput,
                                WriteFile (TmpDir h @ ''/php-cs-fixer-partial.php'')
                                  (prologue @ docLines w ! fst (selectionStart w))])"
proof -
  let ?l = "fst (selectionStart w)"
  let ?line = "docLines w ! ?l"
  let ?rng = "((?l, 0), (?l, length ?line))"
  let ?f = "formatWith (editRequested dealFun (prologue @ ?line) ?rng)
              h cfg (prologue @ ?line) (docUri w) False True w"
  obtain rest where r: "trace (snd ?f) = trace w @ [ClearOutput,
       WriteFile (TmpDir h @ ''/php-cs-fixer-partial.php'') (prologue @ ?line)] @ rest"
    using formatWith_trace_prefix [of "editRequested dealFun (prologue @ ?line) ?rng"
            h cfg "prologue @ ?line" "docUri w" False True w, OF editRequested_trace]
    by (auto simp: scratchPath_def)
  have "\<exists>rest'. trace (snd (case ?f of
                 (Throws e, w1) \<Rightarrow> (Some e, w1)
               | (Rejects e, w1) \<Rightarrow> (None, w1)
               | (Resolves text, w1) \<Rightarrow>
                   (None, editApplied dealFun (prologue @ ?line) ?rng text w1)))
          = trace (snd ?f) @ rest'"
    by (cases ?f; cases "fst ?f") (auto simp: editApplied_def replaceRange_trace)
  then obtain rest' where r': "trace (snd (case ?f of
                 (Throws e, w1) \<Rightarrow> (Some e, w1)
               | (Rejects e, w1) \<Rightarrow> (None, w1)
               | (Resolves text, w1) \<Rightarrow>
                   (None, editApplied dealFun (prologue @ ?line) ?rng text w1)))
          = trace (snd ?f) @ rest'"
    by blast
  show ?thesis
    using assms
    by (cases changes) (auto simp: doAutoFixBySemicolon_def Let_def r r')
qed

theorem doAutoFixBySemicolon_trigger_witness:
  "fst (selectionStart exWorld) < length (docLines exWorld)
   \<and> doAutoFixBySemicolon exHost exConfig [''x''] exWorld = (None, exWorld)
   \<and> doAutoFixBySemicolon exHost exConfig ['';''] exTyped = (None, exTyped)
   \<and> take 2 (trace (snd (doAutoFixBySemicolon exHost exConfig ['';''] exWorld)))
       = [ClearOutput, WriteFile ''/tmp/php-cs-fixer-partial.php'' (prologue @ ''$a=1;'')]"
proof -
  have a: "fst (selectionStart exWorld) < length (docLines exWorld)"
    "fst (selectionStart exTyped) < length (docLines exTyped)"
    by (simp_all add: exWorld_def exTyped_def)
  have l: "docLines exWorld ! fst (selectionStart exWorld) = ''$a=1;''"
    "docLines exTyped ! fst (selectionStart exTyped) = ''}''"
    "trace exWorld = []" "TmpDir exHost = ''/tmp''"
    by (simp_all add: exWorld_def exTyped_def exHost_def)
  show ?thesis
    using doAutoFixBySemicolon_trigger [OF a(1), of "[''x'']" exHost exConfig]
          doAutoFixBySemicolon_trigger [OF a(2), of "['';'']" exHost exConfig]
          doAutoFixBySemicolon_trigger [OF a(1), of "['';'']" exHost exConfig] a l
    by (simp add: numeral_2_eq_2)
qed

section \<open>Properties of the range formatting provider\<close>









end
